theory Spec2Isabelle
  imports Main "HOL-Library.Word" "HOL-Library.Sublist"
begin

section \<open>Text helpers shared by the Go packages\<close>

text \<open>
  Go strings are byte sequences; they are modelled as \<open>string\<close> (a list of 8-bit
  characters). \<open>fmt.Sprintf("%d", n)\<close> prints the decimal digits of \<open>n\<close>, with a leading
  minus sign for a negative number; \<open>fmt.Sprintf("%t", b)\<close> prints \<open>true\<close> or \<open>false\<close>.
\<close>

definition digit_char :: "nat \<Rightarrow> char" where
  "digit_char d = ''0123456789'' ! (d mod 10)"

fun decimal :: "nat \<Rightarrow> string" where
  "decimal n = (if n < 10 then [digit_char n] else decimal (n div 10) @ [digit_char n])"

declare decimal.simps [simp del]

definition sprintf_d :: "int \<Rightarrow> string" where
  "sprintf_d n = (if n < 0 then CHR ''-'' # decimal (nat (- n)) else decimal (nat n))"

definition sprintf_t :: "bool \<Rightarrow> string" where
  "sprintf_t b = (if b then ''true'' else ''false'')"

definition is_digit :: "char \<Rightarrow> bool" where
  "is_digit c = (c \<in> set ''0123456789'')"

definition is_lower :: "char \<Rightarrow> bool" where
  "is_lower c = (c \<in> set ''abcdefghijklmnopqrstuvwxyz'')"

definition is_upper :: "char \<Rightarrow> bool" where
  "is_upper c = (c \<in> set ''ABCDEFGHIJKLMNOPQRSTUVWXYZ'')"

definition is_alnum :: "char \<Rightarrow> bool" where
  "is_alnum c = (is_lower c \<or> is_upper c \<or> is_digit c)"

text \<open>\<open>strings.ReplaceAll(s, old, new)\<close> for a one-character \<open>old\<close>.\<close>

definition ReplaceAll :: "string \<Rightarrow> char \<Rightarrow> string \<Rightarrow> string" where
  "ReplaceAll s old new = concat (map (\<lambda>c. if c = old then new else [c]) s)"

section \<open>Credential issuer (backend/pkg/utils/credentials.go)\<close>

datatype error =
    CredentialGenerationError
  | MakeSliceNegativeLenPanic
  | StoreError
  | NotFound
  | AlreadyExists
  | OwnerReferenceError
  | MustParsePanic

definition UsernamePrefix :: string where
  "UsernamePrefix = ''mc''"

definition PasswordLength :: int where
  "PasswordLength = 16"

text \<open>
  The secure random source \<open>crypto/rand\<close>: a call of \<open>rand.Read\<close> either fails or fills
  the whole slice. An outcome of the source is a failure or a stream of bytes, of which
  the call takes as many as the slice is long.
\<close>

datatype rand_source = RandFailure | RandStream "nat \<Rightarrow> 8 word"

definition rand_Read :: "rand_source \<Rightarrow> nat \<Rightarrow> error + 8 word list" where
  "rand_Read src n =
     (case src of
        RandFailure \<Rightarrow> Inl CredentialGenerationError
      | RandStream f \<Rightarrow> Inr (map f [0..<n]))"

text \<open>
  \<open>base64.URLEncoding.EncodeToString\<close> of the Go standard library: three bytes become
  four characters of the URL-safe alphabet, most significant six bits first; a final
  group of one or two bytes is padded with \<open>=\<close> to four characters.
\<close>

definition encodeURL :: string where
  "encodeURL = ''ABCDEFGHIJKLMNOPQRSTUVWXYZabcdefghijklmnopqrstuvwxyz0123456789-_''"

definition enc :: "nat \<Rightarrow> char" where
  "enc v = encodeURL ! (v mod 64)"

fun EncodeToString :: "8 word list \<Rightarrow> string" where
  "EncodeToString [] = []"
| "EncodeToString [a] =
     (let v = unat a * 65536
      in [enc (v div 262144), enc (v div 4096), CHR ''='', CHR ''=''])"
| "EncodeToString [a, b] =
     (let v = unat a * 65536 + unat b * 256
      in [enc (v div 262144), enc (v div 4096), enc (v div 64), CHR ''=''])"
| "EncodeToString (a # b # c # rest) =
     (let v = unat a * 65536 + unat b * 256 + unat c
      in [enc (v div 262144), enc (v div 4096), enc (v div 64), enc v]
         @ EncodeToString rest)"

text \<open>
  \<open>sanitizeServerName\<close>, on the bytes of the name. \<open>strings.ToLower\<close> is modelled on
  the ASCII letters; the bytes of any other character are dropped by the filter that
  follows. (Go walks the name rune by rune; the model agrees with it on every ASCII name.)
\<close>

definition to_lower_char :: "char \<Rightarrow> char" where
  "to_lower_char c =
     (if is_upper c then char_of (of_char c + (32::nat)) else c)"

definition ToLower :: "string \<Rightarrow> string" where
  "ToLower s = map to_lower_char s"

definition sanitizeServerName :: "string \<Rightarrow> string" where
  "sanitizeServerName name0 =
     (let name1 = ReplaceAll name0 (CHR ''_'') ''-'';
          name2 = ReplaceAll name1 (CHR ''.'') ''-'';
          name3 = ToLower name2;
          sanitized = filter (\<lambda>r. is_lower r \<or> is_digit r \<or> r = CHR ''-'') name3
      in if length sanitized > 20 then take 20 sanitized else sanitized)"

definition generateSecurePassword :: "rand_source \<Rightarrow> int \<Rightarrow> error + string" where
  "generateSecurePassword src len =
     (if len < 0 then Inl MakeSliceNegativeLenPanic
      else case rand_Read src (nat len) of
        Inl err \<Rightarrow> Inl err
      | Inr bytes \<Rightarrow>
          (let password0 = EncodeToString bytes;
               password1 = ReplaceAll password0 (CHR ''-'') '''';
               password2 = ReplaceAll password1 (CHR ''_'') '''';
               password3 = ReplaceAll password2 (CHR ''='') ''''
           in Inr (if int (length password3) > len then take (nat len) password3
                   else password3)))"

definition GenerateSFTPCredentials :: "rand_source \<Rightarrow> string \<Rightarrow> error + string \<times> string" where
  "GenerateSFTPCredentials src serverName =
     (let sanitized = sanitizeServerName serverName;
          username = UsernamePrefix @ ''-'' @ sanitized
      in case generateSecurePassword src PasswordLength of
           Inl err \<Rightarrow> Inl err
         | Inr password \<Rightarrow> Inr (username, password))"

section \<open>Quantity codec (backend/pkg/handlers, backend/pkg/k8s/client.go)\<close>

text \<open>
  Go's \<open>int64\<close> values are modelled as integers in the range below; sums and differences
  of \<open>int64\<close> values wrap around, which \<open>wrap64\<close> writes out.
\<close>

definition int64 :: "int \<Rightarrow> bool" where
  "int64 x = (- (2 ^ 63) \<le> x \<and> x < 2 ^ 63)"

definition wrap64 :: "int \<Rightarrow> int" where
  "wrap64 x = (x + 2 ^ 63) mod 2 ^ 64 - 2 ^ 63"

text \<open>
  \<open>isValidMemoryFormat\<close>: the regular expression \<open>^[0-9]+[MGT]i$\<close>. Without the
  multi-line flag Go's \<open>$\<close> matches at the end of the text only, so the whole string
  is one or more digits, one of \<open>M\<close>, \<open>G\<close>, \<open>T\<close>, and \<open>i\<close>.
\<close>

definition isValidMemoryFormat :: "string \<Rightarrow> bool" where
  "isValidMemoryFormat memory =
     (case rev memory of
        i # u # ds \<Rightarrow> i = CHR ''i'' \<and> u \<in> set ''MGT'' \<and> ds \<noteq> [] \<and> list_all is_digit ds
      | _ \<Rightarrow> False)"

text \<open>
  \<open>parseMemoryToBytes\<close> calls \<open>resource.ParseQuantity\<close> and \<open>Quantity.Value\<close> of the
  Kubernetes library, which are not part of this repository: they are parameters
  \<open>ParseQuantity\<close> (\<open>None\<close> when the library returns an error) and \<open>Value\<close>.
\<close>

datatype parse_error = InvalidMemoryFormat | QuantityParseError

definition parseMemoryToBytes ::
  "(string \<Rightarrow> 'q option) \<Rightarrow> ('q \<Rightarrow> int) \<Rightarrow> string \<Rightarrow> parse_error + int" where
  "parseMemoryToBytes ParseQuantity Value memory =
     (case ParseQuantity memory of
        None \<Rightarrow> Inl QuantityParseError
      | Some quantity \<Rightarrow> Inr (Value quantity))"

text \<open>
  The quantity parser of the admission path: \<open>CreateServer\<close> rejects the request unless
  \<open>isValidMemoryFormat\<close> holds, and only then calls \<open>parseMemoryToBytes\<close>.
\<close>

definition parse_memory ::
  "(string \<Rightarrow> 'q option) \<Rightarrow> ('q \<Rightarrow> int) \<Rightarrow> string \<Rightarrow> parse_error + int" where
  "parse_memory ParseQuantity Value memory =
     (if \<not> isValidMemoryFormat memory then Inl InvalidMemoryFormat
      else parseMemoryToBytes ParseQuantity Value memory)"

text \<open>
  \<open>bytesToHumanReadable\<close> (the same function in both packages). The loop
  \<open>for n := bytes / unit; n >= unit; n /= unit { div *= unit; exp++ }\<close> is \<open>unit_loop\<close>;
  it only divides positive numbers, where Go's truncating division is \<open>div\<close>.
\<close>

function unit_loop :: "int \<Rightarrow> int \<Rightarrow> nat \<Rightarrow> int \<times> nat" where
  "unit_loop n dv ex =
     (if n \<ge> 1024 then unit_loop (n div 1024) (dv * 1024) (ex + 1) else (dv, ex))"
  by pat_completeness auto
termination
  by (relation "measure (\<lambda>(n, dv, ex). nat n)") auto

declare unit_loop.simps [simp del]

text \<open>
  \<open>float64(bytes)\<close> for a positive \<open>int64\<close>: the nearest number with a 53-bit
  significand, ties to even. The result is again an integer. Dividing it by \<open>div\<close>, a
  power of two, is exact in \<open>float64\<close>, so the quotient printed is the rational number
  \<open>float64_of_int bytes / div\<close>.
\<close>

fun bit_length :: "nat \<Rightarrow> nat" where
  "bit_length n = (if n = 0 then 0 else Suc (bit_length (n div 2)))"

declare bit_length.simps [simp del]

definition float64_of_int :: "int \<Rightarrow> int" where
  "float64_of_int n =
     (if n < 2 ^ 53 then n
      else let e = bit_length (nat n) - 53;
               q = n div 2 ^ e;
               r = n mod 2 ^ e;
               half = 2 ^ (e - 1)
           in (if r > half \<or> (r = half \<and> odd q) then q + 1 else q) * 2 ^ e)"

text \<open>
  \<open>fmt.Sprintf("%.1f", m / d)\<close> for integers \<open>m \<ge> 0\<close> and \<open>d > 0\<close>: the exact quotient
  rounded to tenths, ties to even, printed with one digit after the point.
\<close>

definition sprintf_1f :: "int \<Rightarrow> int \<Rightarrow> string" where
  "sprintf_1f m d =
     (let t = (10 * m) div d;
          r = (10 * m) mod d;
          tenths = (if 2 * r > d \<or> (2 * r = d \<and> odd t) then t + 1 else t)
      in decimal (nat (tenths div 10)) @ ''.'' @ [digit_char (nat (tenths mod 10))])"

definition bytesToHumanReadable :: "int \<Rightarrow> string" where
  "bytesToHumanReadable bytes =
     (if bytes < 1024 then sprintf_d bytes @ '' B''
      else let (dv, ex) = unit_loop (bytes div 1024) 1024 0
           in sprintf_1f (float64_of_int bytes) dv @ '' '' @ [''KMGTPE'' ! ex] @ ''iB'')"

section \<open>Capacity planner (backend/pkg/k8s/client.go)\<close>

text \<open>
  The cluster as the two \<open>List\<close> calls report it. A node carries the value of its
  allocatable-memory entry, a container the value of its memory request, when the entry
  is present in the resource list.
\<close>

record node =
  node_name :: string
  allocatable_memory :: "int option"

record container_requests =
  container_name :: string
  memory_request :: "int option"

record pod =
  pod_name :: string
  pod_phase :: string
  pod_containers :: "container_requests list"

record cluster =
  list_nodes :: "error + node list"
  list_pods :: "error + pod list"

definition add_node :: "int \<Rightarrow> node \<Rightarrow> int" where
  "add_node totalMemory n =
     (case allocatable_memory n of
        Some memory \<Rightarrow> wrap64 (totalMemory + memory)
      | None \<Rightarrow> totalMemory)"

definition add_container :: "int \<Rightarrow> container_requests \<Rightarrow> int" where
  "add_container allocated c =
     (case memory_request c of
        Some memory \<Rightarrow> wrap64 (allocated + memory)
      | None \<Rightarrow> allocated)"

definition add_pod :: "int \<Rightarrow> pod \<Rightarrow> int" where
  "add_pod allocated p =
     (if pod_phase p = ''Succeeded'' \<or> pod_phase p = ''Failed'' then allocated
      else foldl add_container allocated (pod_containers p))"

definition GetClusterMemoryResources :: "cluster \<Rightarrow> error + int \<times> int \<times> int" where
  "GetClusterMemoryResources c =
     (case list_nodes c of
        Inl err \<Rightarrow> Inl StoreError
      | Inr nodes \<Rightarrow>
          (let totalMemory = foldl add_node 0 nodes
           in case list_pods c of
                Inl err \<Rightarrow> Inl StoreError
              | Inr pods \<Rightarrow>
                  (let allocated = foldl add_pod 0 pods;
                       available = wrap64 (totalMemory - allocated)
                   in Inr (totalMemory, allocated, available))))"

definition CheckMemoryAvailability :: "cluster \<Rightarrow> int \<Rightarrow> error + bool \<times> string" where
  "CheckMemoryAvailability c requestedMemory =
     (case GetClusterMemoryResources c of
        Inl err \<Rightarrow> Inl err
      | Inr (totalMemory, allocated, available) \<Rightarrow>
          (if requestedMemory > available
           then Inr (False, ''insufficient memory: requested ''
                              @ bytesToHumanReadable requestedMemory
                              @ '', available '' @ bytesToHumanReadable available)
           else Inr (True, '''')))"

text \<open>
  The digits a formatted amount shows after its decimal point: the digits that follow the
  first \<open>.\<close> of the text (none when the text has no point).
\<close>

definition fraction_part :: "string \<Rightarrow> string" where
  "fraction_part s = takeWhile is_digit (drop 1 (dropWhile (\<lambda>c. c \<noteq> CHR ''.'') s))"

section \<open>Custom resource types (pkg/apis/homecraft/v1alpha1/types.go)\<close>

text \<open>
  \<open>metav1.ObjectMeta\<close>, embedded in every object: the records below extend it, so
  \<open>Name m\<close> reads \<open>m.Name\<close> for each of them. Times are clock readings. A condition of
  the status is kept as a text: the controller neither reads nor writes conditions.
\<close>

record OwnerReference =
  ref_Kind :: string
  ref_Name :: string
  Controller :: bool
  BlockOwnerDeletion :: bool

record ObjectMeta =
  Name :: string
  Namespace :: string
  Labels :: "(string \<times> string) list"
  OwnerReferences :: "OwnerReference list"
  DeletionTimestamp :: "nat option"
  Finalizers :: "string list"

record MinecraftServerSpec =
  EULA :: bool
  SFTPUsername :: string
  SFTPPassword :: string
  Memory :: string
  StorageSize :: string
  Version :: string
  ServerType :: string
  MaxPlayers :: int
  Difficulty :: string
  Gamemode :: string

record MinecraftServerStatus =
  Phase :: string
  Endpoint :: string
  SFTPEndpoint :: string
  Status_SFTPUsername :: string
  Status_SFTPPassword :: string
  AllocatedMemory :: string
  LastUpdated :: nat
  Message :: string
  Conditions :: "string list"

record MinecraftServer = ObjectMeta +
  Spec :: MinecraftServerSpec
  Status :: MinecraftServerStatus

section \<open>Owned objects (the Kubernetes API types the controller fills in)\<close>

text \<open>
  The fields of the Kubernetes types that the controller sets or reads. A
  \<open>resource.Quantity\<close> is a value of the type parameter \<open>'q\<close>: the quantity library is
  not part of this repository.
\<close>

record Secret = ObjectMeta +
  StringData :: "(string \<times> string) list"

record 'q PersistentVolumeClaimSpec =
  AccessModes :: "string list"
  pvc_Requests :: "(string \<times> 'q) list"

record 'q PersistentVolumeClaim = ObjectMeta +
  pvc_Spec :: "'q PersistentVolumeClaimSpec"

record EnvVar =
  env_Name :: string
  env_Value :: string

record ContainerPort =
  cp_Name :: string
  cp_ContainerPort :: int
  cp_Protocol :: string

record VolumeMount =
  vm_Name :: string
  MountPath :: string

record 'q Container =
  c_Name :: string
  Image :: string
  Args :: "string list"
  c_Ports :: "ContainerPort list"
  Env :: "EnvVar list"
  VolumeMounts :: "VolumeMount list"
  Requests :: "(string \<times> 'q) list"
  Limits :: "(string \<times> 'q) list"

record Volume =
  v_Name :: string
  ClaimName :: string

record 'q PodTemplateSpec =
  template_Labels :: "(string \<times> string) list"
  Containers :: "'q Container list"
  Volumes :: "Volume list"

record 'q StatefulSetSpec =
  sts_Replicas :: int
  ServiceName :: string
  MatchLabels :: "(string \<times> string) list"
  Template :: "'q PodTemplateSpec"

record StatefulSetStatus =
  Replicas :: int
  ReadyReplicas :: int

record 'q StatefulSet = ObjectMeta +
  sts_Spec :: "'q StatefulSetSpec"
  sts_Status :: StatefulSetStatus

record ServicePort =
  sp_Name :: string
  Port :: int
  TargetPort :: int
  sp_Protocol :: string

record ServiceSpec =
  svc_Type :: string
  Selector :: "(string \<times> string) list"
  Ports :: "ServicePort list"

record LoadBalancerIngress =
  IP :: string
  Hostname :: string

record ServiceStatus =
  Ingress :: "LoadBalancerIngress list"

record Service = ObjectMeta +
  svc_Spec :: ServiceSpec
  svc_Status :: ServiceStatus

text \<open>\<open>client.Object\<close>: the owned objects the controller passes to the store.\<close>

datatype kind = SecretKind | PersistentVolumeClaimKind | StatefulSetKind | ServiceKind

datatype 'q object =
    SecretObject Secret
  | PersistentVolumeClaimObject "'q PersistentVolumeClaim"
  | StatefulSetObject "'q StatefulSet"
  | ServiceObject Service

fun GetKind :: "'q object \<Rightarrow> kind" where
  "GetKind (SecretObject x) = SecretKind"
| "GetKind (PersistentVolumeClaimObject x) = PersistentVolumeClaimKind"
| "GetKind (StatefulSetObject x) = StatefulSetKind"
| "GetKind (ServiceObject x) = ServiceKind"

fun GetName :: "'q object \<Rightarrow> string" where
  "GetName (SecretObject x) = Name x"
| "GetName (PersistentVolumeClaimObject x) = Name x"
| "GetName (StatefulSetObject x) = Name x"
| "GetName (ServiceObject x) = Name x"

fun GetNamespace :: "'q object \<Rightarrow> string" where
  "GetNamespace (SecretObject x) = Namespace x"
| "GetNamespace (PersistentVolumeClaimObject x) = Namespace x"
| "GetNamespace (StatefulSetObject x) = Namespace x"
| "GetNamespace (ServiceObject x) = Namespace x"

fun GetOwnerReferences :: "'q object \<Rightarrow> OwnerReference list" where
  "GetOwnerReferences (SecretObject x) = OwnerReferences x"
| "GetOwnerReferences (PersistentVolumeClaimObject x) = OwnerReferences x"
| "GetOwnerReferences (StatefulSetObject x) = OwnerReferences x"
| "GetOwnerReferences (ServiceObject x) = OwnerReferences x"

fun SetOwnerReferences :: "OwnerReference list \<Rightarrow> 'q object \<Rightarrow> 'q object" where
  "SetOwnerReferences refs (SecretObject x) = SecretObject (x\<lparr>OwnerReferences := refs\<rparr>)"
| "SetOwnerReferences refs (PersistentVolumeClaimObject x) =
     PersistentVolumeClaimObject (x\<lparr>OwnerReferences := refs\<rparr>)"
| "SetOwnerReferences refs (StatefulSetObject x) =
     StatefulSetObject (x\<lparr>OwnerReferences := refs\<rparr>)"
| "SetOwnerReferences refs (ServiceObject x) = ServiceObject (x\<lparr>OwnerReferences := refs\<rparr>)"

section \<open>Resource synthesis (operator/controllers/minecraftserver_controller.go)\<close>

definition finalizerName :: string where
  "finalizerName = ''minecraftserver.homecraft.io/finalizer''"

text \<open>
  \<open>resource.MustParse\<close> panics when \<open>resource.ParseQuantity\<close> returns an error. The parser
  is the parameter \<open>ParseQuantity\<close> (\<open>None\<close> for an error); the panic is the outcome
  \<open>Inl MustParsePanic\<close>.
\<close>

definition MustParse :: "(string \<Rightarrow> 'q option) \<Rightarrow> string \<Rightarrow> error + 'q" where
  "MustParse ParseQuantity str =
     (case ParseQuantity str of None \<Rightarrow> Inl MustParsePanic | Some q \<Rightarrow> Inr q)"

definition new_meta :: "string \<Rightarrow> string \<Rightarrow> (string \<times> string) list \<Rightarrow> ObjectMeta" where
  "new_meta name namespace labels =
     \<lparr>Name = name, Namespace = namespace, Labels = labels, OwnerReferences = [],
      DeletionTimestamp = None, Finalizers = []\<rparr>"

definition secretForMinecraftServer :: "MinecraftServer \<Rightarrow> Secret" where
  "secretForMinecraftServer m =
     ObjectMeta.extend (new_meta (Name m @ ''-sftp'') (Namespace m) [])
       (Secret.fields
          [(''username'', SFTPUsername (Spec m)), (''password'', SFTPPassword (Spec m))])"

definition pvcForMinecraftServer ::
  "(string \<Rightarrow> 'q option) \<Rightarrow> MinecraftServer \<Rightarrow> error + 'q PersistentVolumeClaim" where
  "pvcForMinecraftServer ParseQuantity m =
     (case MustParse ParseQuantity (StorageSize (Spec m)) of
        Inl panic \<Rightarrow> Inl panic
      | Inr storageQuantity \<Rightarrow>
          Inr (ObjectMeta.extend (new_meta (Name m @ ''-data'') (Namespace m) [])
                 (PersistentVolumeClaim.fields
                    \<lparr>AccessModes = [''ReadWriteOnce''],
                     pvc_Requests = [(''storage'', storageQuantity)]\<rparr>)))"

definition minecraftEnv :: "MinecraftServer \<Rightarrow> string \<Rightarrow> string \<Rightarrow> EnvVar list" where
  "minecraftEnv m version serverType =
     [\<lparr>env_Name = ''EULA'', env_Value = sprintf_t (EULA (Spec m))\<rparr>,
      \<lparr>env_Name = ''VERSION'', env_Value = version\<rparr>,
      \<lparr>env_Name = ''TYPE'', env_Value = serverType\<rparr>,
      \<lparr>env_Name = ''MEMORY'', env_Value = Memory (Spec m)\<rparr>]
     @ (if MaxPlayers (Spec m) > 0
        then [\<lparr>env_Name = ''MAX_PLAYERS'', env_Value = sprintf_d (MaxPlayers (Spec m))\<rparr>]
        else [])
     @ (if Difficulty (Spec m) \<noteq> ''''
        then [\<lparr>env_Name = ''DIFFICULTY'', env_Value = Difficulty (Spec m)\<rparr>]
        else [])
     @ (if Gamemode (Spec m) \<noteq> ''''
        then [\<lparr>env_Name = ''MODE'', env_Value = Gamemode (Spec m)\<rparr>]
        else [])"

definition statefulSetForMinecraftServer ::
  "(string \<Rightarrow> 'q option) \<Rightarrow> MinecraftServer \<Rightarrow> error + 'q StatefulSet" where
  "statefulSetForMinecraftServer ParseQuantity m =
     (let replicas = 1
      in case MustParse ParseQuantity (Memory (Spec m)) of
        Inl panic \<Rightarrow> Inl panic
      | Inr memoryQuantity \<Rightarrow>
          (let version = (if Version (Spec m) = '''' then ''LATEST'' else Version (Spec m));
               serverType =
                 (if ServerType (Spec m) = '''' then ''VANILLA'' else ServerType (Spec m));
               labels =
                 [(''app'', ''minecraft''),
                  (''minecraftserver'', Name m),
                  (''app.kubernetes.io/name'', ''minecraft''),
                  (''app.kubernetes.io/instance'', Name m),
                  (''app.kubernetes.io/managed-by'', ''homecraft-operator'')];
               sftpUser =
                 SFTPUsername (Spec m) @ '':'' @ SFTPPassword (Spec m) @ '':1000:1000:/data''
           in Inr (ObjectMeta.extend (new_meta (Name m) (Namespace m) labels)
                (StatefulSet.fields
                   \<lparr>sts_Replicas = replicas,
                    ServiceName = Name m,
                    MatchLabels = labels,
                    Template =
                      \<lparr>template_Labels = labels,
                       Containers =
                         [\<lparr>c_Name = ''minecraft'',
                           Image = ''itzg/minecraft-server:latest'',
                           Args = [],
                           c_Ports = [\<lparr>cp_Name = ''minecraft'', cp_ContainerPort = 25565,
                                       cp_Protocol = ''TCP''\<rparr>],
                           Env = minecraftEnv m version serverType,
                           VolumeMounts = [\<lparr>vm_Name = ''data'', MountPath = ''/data''\<rparr>],
                           Requests = [(''memory'', memoryQuantity)],
                           Limits = [(''memory'', memoryQuantity)]\<rparr>,
                          \<lparr>c_Name = ''sftp'',
                           Image = ''atmoz/sftp:latest'',
                           Args = [sftpUser],
                           c_Ports = [\<lparr>cp_Name = ''sftp'', cp_ContainerPort = 22,
                                       cp_Protocol = ''TCP''\<rparr>],
                           Env = [],
                           VolumeMounts =
                             [\<lparr>vm_Name = ''data'',
                               MountPath = ''/home/'' @ SFTPUsername (Spec m) @ ''/data''\<rparr>],
                           Requests = [],
                           Limits = []\<rparr>],
                       Volumes = [\<lparr>v_Name = ''data'', ClaimName = Name m @ ''-data''\<rparr>]\<rparr>\<rparr>
                   \<lparr>Replicas = 0, ReadyReplicas = 0\<rparr>))))"

definition serviceForMinecraft :: "MinecraftServer \<Rightarrow> Service" where
  "serviceForMinecraft m =
     (let labels = [(''app'', ''minecraft''), (''minecraftserver'', Name m)]
      in ObjectMeta.extend (new_meta (Name m @ ''-minecraft'') (Namespace m) labels)
           (Service.fields
              \<lparr>svc_Type = ''LoadBalancer'',
               Selector = labels,
               Ports = [\<lparr>sp_Name = ''minecraft'', Port = 25565, TargetPort = 25565,
                         sp_Protocol = ''TCP''\<rparr>]\<rparr>
              \<lparr>Ingress = []\<rparr>))"

definition serviceForSFTP :: "MinecraftServer \<Rightarrow> Service" where
  "serviceForSFTP m =
     (let labels = [(''app'', ''minecraft''), (''minecraftserver'', Name m)]
      in ObjectMeta.extend (new_meta (Name m @ ''-sftp'') (Namespace m) labels)
           (Service.fields
              \<lparr>svc_Type = ''LoadBalancer'',
               Selector = labels,
               Ports = [\<lparr>sp_Name = ''sftp'', Port = 22, TargetPort = 22,
                         sp_Protocol = ''TCP''\<rparr>]\<rparr>
              \<lparr>Ingress = []\<rparr>))"

text \<open>
  The value of an environment variable of a container, as the tests read it: the last
  entry with the name wins.
\<close>

definition env_lookup :: "EnvVar list \<Rightarrow> string \<Rightarrow> string option" where
  "env_lookup env name = map_of (rev (map (\<lambda>e. (env_Name e, env_Value e)) env)) name"

section \<open>The store client (controller-runtime \<open>client.Client\<close>)\<close>

text \<open>
  The external store is a table per kind of object, keyed by namespace and name. Every
  call of the client is recorded in \<open>calls\<close>, in order. A call in \<open>failing\<close> returns a
  store error (network, authorisation, conflict) and changes nothing; \<open>Get\<close> of a missing
  key returns \<open>NotFound\<close>.
\<close>

type_synonym key = "string \<times> string"

datatype call =
    GetServer key
  | UpdateServer key "string list"
  | UpdateServerStatus key
  | GetObject kind key
  | CreateObject kind key

record 'q client =
  servers :: "key \<rightharpoonup> MinecraftServer"
  secrets :: "key \<rightharpoonup> Secret"
  pvcs :: "key \<rightharpoonup> 'q PersistentVolumeClaim"
  statefulsets :: "key \<rightharpoonup> 'q StatefulSet"
  services :: "key \<rightharpoonup> Service"
  failing :: "call \<Rightarrow> bool"
  calls :: "call list"

definition record_call :: "call \<Rightarrow> 'q client \<Rightarrow> 'q client" where
  "record_call x c = c\<lparr>calls := calls c @ [x]\<rparr>"

text \<open>
  \<open>r.Get(ctx, req.NamespacedName, minecraftServer)\<close>: the record read under a key
  carries the namespace and name of the key.
\<close>

definition Get_server :: "key \<Rightarrow> 'q client \<Rightarrow> (error + MinecraftServer) \<times> 'q client" where
  "Get_server k c =
     (let c' = record_call (GetServer k) c
      in if failing c (GetServer k) then (Inl StoreError, c')
         else case servers c k of
                None \<Rightarrow> (Inl NotFound, c')
              | Some m \<Rightarrow> (Inr (m\<lparr>Namespace := fst k, Name := snd k\<rparr>), c'))"

text \<open>
  \<open>r.Update(ctx, minecraftServer)\<close>. The custom resource has a status subresource
  (\<open>+kubebuilder:subresource:status\<close>), so \<open>Update\<close> writes metadata and spec and keeps
  the stored status, and \<open>r.Status().Update\<close> writes the status only. What the platform
  does to a record once its last finalizer is gone (it removes the record) is not part of
  the client and is not modelled.
\<close>

definition Update_server ::
  "MinecraftServer \<Rightarrow> 'q client \<Rightarrow> (error + MinecraftServer) \<times> 'q client" where
  "Update_server m c =
     (let k = (Namespace m, Name m);
          x = UpdateServer k (Finalizers m);
          c' = record_call x c
      in if failing c x then (Inl StoreError, c')
         else case servers c k of
                None \<Rightarrow> (Inl NotFound, c')
              | Some stored \<Rightarrow>
                  (let m' = m\<lparr>Status := Status stored\<rparr>
                   in (Inr m', c'\<lparr>servers := (servers c')(k \<mapsto> m')\<rparr>)))"

definition Status_Update ::
  "MinecraftServer \<Rightarrow> 'q client \<Rightarrow> (error + unit) \<times> 'q client" where
  "Status_Update m c =
     (let k = (Namespace m, Name m);
          x = UpdateServerStatus k;
          c' = record_call x c
      in if failing c x then (Inl StoreError, c')
         else case servers c k of
                None \<Rightarrow> (Inl NotFound, c')
              | Some stored \<Rightarrow>
                  (Inr (), c'\<lparr>servers := (servers c')(k \<mapsto> stored\<lparr>Status := Status m\<rparr>)\<rparr>))"

text \<open>\<open>r.Get\<close> into an object of a given kind, from the table of that kind.\<close>

definition Get_typed ::
  "(key \<rightharpoonup> 'a) \<Rightarrow> kind \<Rightarrow> key \<Rightarrow> 'q client \<Rightarrow> (error + 'a) \<times> 'q client" where
  "Get_typed table knd k c =
     (let c' = record_call (GetObject knd k) c
      in if failing c (GetObject knd k) then (Inl StoreError, c')
         else case table k of
                None \<Rightarrow> (Inl NotFound, c')
              | Some x \<Rightarrow> (Inr x, c'))"

definition map_result :: "('a \<Rightarrow> 'b) \<Rightarrow> (error + 'a) \<times> 'c \<Rightarrow> (error + 'b) \<times> 'c" where
  "map_result f r = (case r of (Inl err, c) \<Rightarrow> (Inl err, c) | (Inr x, c) \<Rightarrow> (Inr (f x), c))"

text \<open>
  \<open>r.Get(ctx, key, existing)\<close> where \<open>existing\<close> is a copy of \<open>obj\<close>: the kind of \<open>obj\<close>
  selects the table.
\<close>

fun Get_object :: "'q object \<Rightarrow> key \<Rightarrow> 'q client \<Rightarrow> (error + 'q object) \<times> 'q client" where
  "Get_object (SecretObject x) k c =
     map_result SecretObject (Get_typed (secrets c) SecretKind k c)"
| "Get_object (PersistentVolumeClaimObject x) k c =
     map_result PersistentVolumeClaimObject (Get_typed (pvcs c) PersistentVolumeClaimKind k c)"
| "Get_object (StatefulSetObject x) k c =
     map_result StatefulSetObject (Get_typed (statefulsets c) StatefulSetKind k c)"
| "Get_object (ServiceObject x) k c =
     map_result ServiceObject (Get_typed (services c) ServiceKind k c)"

fun is_stored :: "'q client \<Rightarrow> kind \<Rightarrow> key \<Rightarrow> bool" where
  "is_stored c SecretKind k = (secrets c k \<noteq> None)"
| "is_stored c PersistentVolumeClaimKind k = (pvcs c k \<noteq> None)"
| "is_stored c StatefulSetKind k = (statefulsets c k \<noteq> None)"
| "is_stored c ServiceKind k = (services c k \<noteq> None)"

fun insert_object :: "'q object \<Rightarrow> 'q client \<Rightarrow> 'q client" where
  "insert_object (SecretObject x) c = c\<lparr>secrets := (secrets c)((Namespace x, Name x) \<mapsto> x)\<rparr>"
| "insert_object (PersistentVolumeClaimObject x) c =
     c\<lparr>pvcs := (pvcs c)((Namespace x, Name x) \<mapsto> x)\<rparr>"
| "insert_object (StatefulSetObject x) c =
     c\<lparr>statefulsets := (statefulsets c)((Namespace x, Name x) \<mapsto> x)\<rparr>"
| "insert_object (ServiceObject x) c =
     c\<lparr>services := (services c)((Namespace x, Name x) \<mapsto> x)\<rparr>"

definition Create :: "'q object \<Rightarrow> 'q client \<Rightarrow> (error + unit) \<times> 'q client" where
  "Create obj c =
     (let k = (GetNamespace obj, GetName obj);
          x = CreateObject (GetKind obj) k;
          c' = record_call x c
      in if failing c x then (Inl StoreError, c')
         else if is_stored c (GetKind obj) k then (Inl AlreadyExists, c')
         else (Inr (), insert_object obj c'))"

text \<open>
  \<open>controllerutil.SetControllerReference(owner, obj, r.Scheme)\<close> of controller-runtime.
  It fails when a namespaced owner and the object are in different namespaces, when the
  scheme does not know the owner's type (\<open>scheme_knows_owner\<close>), and when the object
  already has another controller; otherwise it puts the reference to the owner, marked as
  controller, into the object's owner references.
\<close>

definition owner_ref :: "MinecraftServer \<Rightarrow> OwnerReference" where
  "owner_ref owner =
     \<lparr>ref_Kind = ''MinecraftServer'', ref_Name = Name owner, Controller = True,
      BlockOwnerDeletion = True\<rparr>"

definition referSameObject :: "OwnerReference \<Rightarrow> OwnerReference \<Rightarrow> bool" where
  "referSameObject a b = (ref_Kind a = ref_Kind b \<and> ref_Name a = ref_Name b)"

fun upsertOwnerRef :: "OwnerReference \<Rightarrow> OwnerReference list \<Rightarrow> OwnerReference list" where
  "upsertOwnerRef ref [] = [ref]"
| "upsertOwnerRef ref (r # rs) =
     (if referSameObject r ref then ref # rs else r # upsertOwnerRef ref rs)"

definition SetControllerReference ::
  "bool \<Rightarrow> MinecraftServer \<Rightarrow> 'q object \<Rightarrow> error + 'q object" where
  "SetControllerReference scheme_knows_owner owner obj =
     (if Namespace owner \<noteq> '''' \<and> GetNamespace obj \<noteq> Namespace owner
      then Inl OwnerReferenceError
      else if \<not> scheme_knows_owner then Inl OwnerReferenceError
      else if list_ex (\<lambda>r. Controller r \<and> \<not> referSameObject r (owner_ref owner))
                (GetOwnerReferences obj)
      then Inl OwnerReferenceError
      else Inr (SetOwnerReferences
                  (upsertOwnerRef (owner_ref owner) (GetOwnerReferences obj)) obj))"

text \<open>\<open>controllerutil.ContainsFinalizer\<close>, \<open>AddFinalizer\<close> and \<open>RemoveFinalizer\<close>.\<close>

definition ContainsFinalizer :: "MinecraftServer \<Rightarrow> string \<Rightarrow> bool" where
  "ContainsFinalizer m finalizer = (finalizer \<in> set (Finalizers m))"

definition AddFinalizer :: "MinecraftServer \<Rightarrow> string \<Rightarrow> MinecraftServer" where
  "AddFinalizer m finalizer =
     (if finalizer \<in> set (Finalizers m) then m
      else m\<lparr>Finalizers := Finalizers m @ [finalizer]\<rparr>)"

definition RemoveFinalizer :: "MinecraftServer \<Rightarrow> string \<Rightarrow> MinecraftServer" where
  "RemoveFinalizer m finalizer =
     m\<lparr>Finalizers := filter (\<lambda>f. f \<noteq> finalizer) (Finalizers m)\<rparr>"

section \<open>The reconcile loop (operator/controllers/minecraftserver_controller.go)\<close>

text \<open>\<open>if err != nil { return ctrl.Result{}, err }\<close>: stop at the first error.\<close>

definition andThen ::
  "(error + 'a) \<times> 'c \<Rightarrow> ('a \<Rightarrow> 'c \<Rightarrow> (error + 'b) \<times> 'c) \<Rightarrow> (error + 'b) \<times> 'c" where
  "andThen r f = (case r of (Inl err, c) \<Rightarrow> (Inl err, c) | (Inr x, c) \<Rightarrow> f x c)"

definition createOrUpdateResource ::
  "bool \<Rightarrow> 'q object \<Rightarrow> MinecraftServer \<Rightarrow> 'q client \<Rightarrow> (error + unit) \<times> 'q client" where
  "createOrUpdateResource scheme_knows_owner obj0 owner c =
     (case SetControllerReference scheme_knows_owner owner obj0 of
        Inl err \<Rightarrow> (Inl err, c)
      | Inr obj \<Rightarrow>
          (let k = (GetNamespace obj, GetName obj)
           in case Get_object obj k c of
                (Inl err, c') \<Rightarrow>
                  (if err = NotFound then Create obj c' else (Inl err, c'))
              | (Inr existing, c') \<Rightarrow> (Inr (), c')))"

text \<open>
  The status projection inside \<open>updateStatus\<close>: phase and message from the replica
  counts of the live workload, an endpoint from the live service.
\<close>

definition phase_message :: "'q StatefulSet \<Rightarrow> string \<times> string" where
  "phase_message actualSts =
     (if ReadyReplicas (sts_Status actualSts) > 0 then (''Running'', ''Server is running'')
      else if Replicas (sts_Status actualSts) > 0 then (''Starting'', ''Server is starting'')
      else (''Pending'', ''Creating resources''))"

definition endpoint_of :: "Service \<Rightarrow> string" where
  "endpoint_of actualSvc =
     (case Ingress (svc_Status actualSvc) of
        [] \<Rightarrow> ''''
      | ingress0 # _ \<Rightarrow>
          (let lbIP = IP ingress0
           in case Ports (svc_Spec actualSvc) of
                [] \<Rightarrow> ''''
              | port0 # _ \<Rightarrow>
                  (if lbIP \<noteq> '''' then lbIP @ '':'' @ sprintf_d (Port port0) else '''')))"

definition projected_status ::
  "nat \<Rightarrow> MinecraftServer \<Rightarrow> 'q StatefulSet \<Rightarrow> Service \<Rightarrow> Service \<Rightarrow> MinecraftServerStatus" where
  "projected_status now m actualSts actualMinecraftSvc actualSftpSvc =
     (Status m)
       \<lparr>Phase := fst (phase_message actualSts),
        Message := snd (phase_message actualSts),
        Endpoint := endpoint_of actualMinecraftSvc,
        SFTPEndpoint := endpoint_of actualSftpSvc,
        Status_SFTPUsername := SFTPUsername (Spec m),
        Status_SFTPPassword := SFTPPassword (Spec m),
        AllocatedMemory := Memory (Spec m),
        LastUpdated := now\<rparr>"

definition updateStatus ::
  "nat \<Rightarrow> MinecraftServer \<Rightarrow> 'q StatefulSet \<Rightarrow> Service \<Rightarrow> Service \<Rightarrow> 'q client
   \<Rightarrow> (error + unit) \<times> 'q client" where
  "updateStatus now m sts minecraftSvc sftpSvc c =
     andThen (Get_typed (statefulsets c) StatefulSetKind (Namespace sts, Name sts) c)
       (\<lambda>actualSts c.
     andThen (Get_typed (services c) ServiceKind (Namespace minecraftSvc, Name minecraftSvc) c)
       (\<lambda>actualMinecraftSvc c.
     andThen (Get_typed (services c) ServiceKind (Namespace sftpSvc, Name sftpSvc) c)
       (\<lambda>actualSftpSvc c.
     Status_Update
       (m\<lparr>Status := projected_status now m actualSts actualMinecraftSvc actualSftpSvc\<rparr>) c)))"

record Result =
  RequeueAfter :: nat

text \<open>
  The part of \<open>Reconcile\<close> after the finalizer gate: synthesize each owned object and
  create it if absent, in the order of the source, then update the status. A panic of
  \<open>resource.MustParse\<close> ends the pass where it happens.
\<close>

definition reconcile_owned ::
  "(string \<Rightarrow> 'q option) \<Rightarrow> bool \<Rightarrow> nat \<Rightarrow> MinecraftServer \<Rightarrow> 'q client
   \<Rightarrow> (error + Result) \<times> 'q client" where
  "reconcile_owned ParseQuantity scheme_knows_owner now minecraftServer c =
     (let secret = secretForMinecraftServer minecraftServer in
      andThen (createOrUpdateResource scheme_knows_owner (SecretObject secret)
                 minecraftServer c) (\<lambda>u c.
      andThen (pvcForMinecraftServer ParseQuantity minecraftServer, c) (\<lambda>pvc c.
      andThen (createOrUpdateResource scheme_knows_owner (PersistentVolumeClaimObject pvc)
                 minecraftServer c) (\<lambda>u c.
      andThen (statefulSetForMinecraftServer ParseQuantity minecraftServer, c)
        (\<lambda>statefulSet c.
      andThen (createOrUpdateResource scheme_knows_owner (StatefulSetObject statefulSet)
                 minecraftServer c) (\<lambda>u c.
      (let minecraftSvc = serviceForMinecraft minecraftServer in
      andThen (createOrUpdateResource scheme_knows_owner (ServiceObject minecraftSvc)
                 minecraftServer c) (\<lambda>u c.
      (let sftpSvc = serviceForSFTP minecraftServer in
      andThen (createOrUpdateResource scheme_knows_owner (ServiceObject sftpSvc)
                 minecraftServer c) (\<lambda>u c.
      andThen (updateStatus now minecraftServer statefulSet minecraftSvc sftpSvc c) (\<lambda>u c.
      (Inr \<lparr>RequeueAfter = 30\<rparr>, c))))))))))))"

definition Reconcile ::
  "(string \<Rightarrow> 'q option) \<Rightarrow> bool \<Rightarrow> nat \<Rightarrow> key \<Rightarrow> 'q client \<Rightarrow> (error + Result) \<times> 'q client" where
  "Reconcile ParseQuantity scheme_knows_owner now req c =
     (case Get_server req c of
        (Inl err, c1) \<Rightarrow>
          (if err = NotFound then (Inr \<lparr>RequeueAfter = 0\<rparr>, c1) else (Inl err, c1))
      | (Inr minecraftServer, c1) \<Rightarrow>
          (if DeletionTimestamp minecraftServer \<noteq> None then
             (if ContainsFinalizer minecraftServer finalizerName then
                andThen (Update_server (RemoveFinalizer minecraftServer finalizerName) c1)
                  (\<lambda>m c2. (Inr \<lparr>RequeueAfter = 0\<rparr>, c2))
              else (Inr \<lparr>RequeueAfter = 0\<rparr>, c1))
           else
             andThen
               (if \<not> ContainsFinalizer minecraftServer finalizerName
                then Update_server (AddFinalizer minecraftServer finalizerName) c1
                else (Inr minecraftServer, c1))
               (reconcile_owned ParseQuantity scheme_knows_owner now)))"

section \<open>Observations used to state the properties\<close>

text \<open>
  The environment of the primary (first) container of the synthesized workload, and the
  value it gives to a variable.
\<close>

definition workload_env :: "(string \<Rightarrow> 'q option) \<Rightarrow> MinecraftServer \<Rightarrow> error + EnvVar list" where
  "workload_env ParseQuantity m =
     (case statefulSetForMinecraftServer ParseQuantity m of
        Inl panic \<Rightarrow> Inl panic
      | Inr sts \<Rightarrow>
          (case Containers (Template (sts_Spec sts)) of
             [] \<Rightarrow> Inr []
           | minecraftContainer # _ \<Rightarrow> Inr (Env minecraftContainer)))"

definition workload_env_value ::
  "(string \<Rightarrow> 'q option) \<Rightarrow> MinecraftServer \<Rightarrow> string \<Rightarrow> error + string option" where
  "workload_env_value ParseQuantity m name =
     (case workload_env ParseQuantity m of
        Inl panic \<Rightarrow> Inl panic
      | Inr env \<Rightarrow> Inr (env_lookup env name))"

text \<open>
  The address the platform has assigned to a service from outside: the IP of its first
  load-balancer ingress entry, when there is one and it is not empty.
\<close>

definition external_address :: "Service \<Rightarrow> string option" where
  "external_address svc =
     (case Ingress (svc_Status svc) of
        [] \<Rightarrow> None
      | ingress0 # _ \<Rightarrow> (if IP ingress0 = '''' then None else Some (IP ingress0)))"

text \<open>
  \<open>extends c c'\<close>: the store \<open>c'\<close> has every owned object of \<open>c\<close> unchanged (and
  possibly more), the same server records and the same failing calls, and its record of
  calls continues that of \<open>c\<close>.
\<close>

definition extends :: "'q client \<Rightarrow> 'q client \<Rightarrow> bool" where
  "extends c c' =
     (servers c' = servers c \<and> failing c' = failing c
      \<and> secrets c \<subseteq>\<^sub>m secrets c' \<and> pvcs c \<subseteq>\<^sub>m pvcs c'
      \<and> statefulsets c \<subseteq>\<^sub>m statefulsets c' \<and> services c \<subseteq>\<^sub>m services c'
      \<and> prefix (calls c) (calls c'))"

text \<open>The calls of a list that create an owned object.\<close>

fun is_create :: "call \<Rightarrow> bool" where
  "is_create (CreateObject knd k) = True"
| "is_create x = False"

text \<open>\<open>same_objects c c'\<close>: the two stores hold exactly the same owned objects.\<close>

definition same_objects :: "'q client \<Rightarrow> 'q client \<Rightarrow> bool" where
  "same_objects c c' =
     (secrets c' = secrets c \<and> pvcs c' = pvcs c
      \<and> statefulsets c' = statefulsets c \<and> services c' = services c)"

section \<open>Concrete inputs\<close>

text \<open>
  A cluster of one node with 16 GiB allocatable memory and one running pod that requests
  4 GiB.
\<close>

definition scenario_cluster :: cluster where
  "scenario_cluster =
     \<lparr>list_nodes = Inr [\<lparr>node_name = ''node-1'', allocatable_memory = Some 17179869184\<rparr>],
      list_pods = Inr [\<lparr>pod_name = ''pod-1'', pod_phase = ''Running'',
                        pod_containers = [\<lparr>container_name = ''container-1'',
                                           memory_request = Some 4294967296\<rparr>]\<rparr>]\<rparr>"

text \<open>
  A quantity library that accepts the texts of the grammar \<open>^[0-9]+[MGT]i$\<close> and keeps
  the text as the quantity.
\<close>

definition parse_text :: "string \<Rightarrow> string option" where
  "parse_text s = (if isValidMemoryFormat s then Some s else None)"

text \<open>
  The servers of the controller's tests: one with every optional field left empty, one
  fully configured, and one whose memory is not a quantity.
\<close>

definition empty_status :: MinecraftServerStatus where
  "empty_status =
     \<lparr>Phase = '''', Endpoint = '''', SFTPEndpoint = '''', Status_SFTPUsername = '''',
      Status_SFTPPassword = '''', AllocatedMemory = '''', LastUpdated = 0, Message = '''',
      Conditions = []\<rparr>"

definition default_server :: MinecraftServer where
  "default_server =
     ObjectMeta.extend (new_meta ''test-server'' ''default'' [])
       (MinecraftServer.fields
          \<lparr>EULA = True, SFTPUsername = ''test-user'', SFTPPassword = ''test-pass'',
           Memory = ''2Gi'', StorageSize = ''5Gi'', Version = '''', ServerType = '''',
           MaxPlayers = 0, Difficulty = '''', Gamemode = ''''\<rparr>
          empty_status)"

definition custom_server :: MinecraftServer where
  "custom_server =
     ObjectMeta.extend (new_meta ''custom-server'' ''default'' [])
       (MinecraftServer.fields
          \<lparr>EULA = True, SFTPUsername = ''custom-user'', SFTPPassword = ''custom-pass'',
           Memory = ''4Gi'', StorageSize = ''10Gi'', Version = ''1.19.4'', ServerType = ''PAPER'',
           MaxPlayers = 50, Difficulty = ''hard'', Gamemode = ''creative''\<rparr>
          empty_status)"

definition bad_server :: MinecraftServer where
  "bad_server =
     ObjectMeta.extend (new_meta ''bad-server'' ''default'' [])
       (MinecraftServer.fields
          \<lparr>EULA = True, SFTPUsername = ''bad-user'', SFTPPassword = ''bad-pass'',
           Memory = ''lots'', StorageSize = ''5.5Gi'', Version = '''', ServerType = '''',
           MaxPlayers = 0, Difficulty = '''', Gamemode = ''''\<rparr>
          empty_status)"

text \<open>
  Stores without failing calls: an empty one, and one that holds a single server record
  under its own namespace and name. A server that is marked for deletion and carries the
  finalizer.
\<close>

definition empty_store :: "string client" where
  "empty_store =
     \<lparr>servers = Map.empty, secrets = Map.empty, pvcs = Map.empty,
      statefulsets = Map.empty, services = Map.empty,
      failing = (\<lambda>x. False), calls = []\<rparr>"

definition store_with :: "MinecraftServer \<Rightarrow> string client" where
  "store_with m = empty_store\<lparr>servers := [(Namespace m, Name m) \<mapsto> m]\<rparr>"

definition deleting_server :: MinecraftServer where
  "deleting_server = default_server\<lparr>DeletionTimestamp := Some 7, Finalizers := [finalizerName]\<rparr>"

text \<open>
  The key of the test server, and a store in which its workload has one replica that is
  not ready yet, its game service has been given an address and its file service has not.
\<close>

definition test_key :: key where
  "test_key = (''default'', ''test-server'')"

definition live_sts :: "string StatefulSet" where
  "live_sts =
     (projr (statefulSetForMinecraftServer parse_text default_server))
       \<lparr>sts_Status := \<lparr>Replicas = 1, ReadyReplicas = 0\<rparr>\<rparr>"

definition live_game_svc :: Service where
  "live_game_svc =
     (serviceForMinecraft default_server)
       \<lparr>svc_Status := \<lparr>Ingress = [\<lparr>IP = ''203.0.113.7'', Hostname = ''''\<rparr>]\<rparr>\<rparr>"

definition live_sftp_svc :: Service where
  "live_sftp_svc = serviceForSFTP default_server"

definition starting_store :: "string client" where
  "starting_store =
     (store_with default_server)
       \<lparr>statefulsets := [(''default'', ''test-server'') \<mapsto> live_sts],
        services := [(''default'', ''test-server-minecraft'') \<mapsto> live_game_svc,
                     (''default'', ''test-server-sftp'') \<mapsto> live_sftp_svc]\<rparr>"


section \<open>Properties of the credential issuer\<close>

lemma upt16: "[0..<16] = [0,1,2,3,4,5,6,7,8,9,10,11,12,13,14,15]"
  by (simp add: upt_conv_Cons)

lemma enc_values:
  "enc 4095 = CHR ''_''" "enc 262143 = CHR ''_''" "enc 16777215 = CHR ''_''"
  "enc 4080 = CHR ''w''" "enc 63 = CHR ''_''"
  by (simp_all add: enc_def encodeURL_def)

lemma encode_all_ones:
  "EncodeToString (map (\<lambda>i. (255::8 word)) [0..<16]) = ''_____________________w==''"
  by (simp add: upt16 Let_def enc_values)

lemma ReplaceAll_delete: "ReplaceAll s c [] = filter (\<lambda>x. x \<noteq> c) s"
  by (induction s) (simp_all add: ReplaceAll_def)

lemma password_all_ones:
  "generateSecurePassword (RandStream (\<lambda>i. 255)) 16 = Inr ''w''"
  by (simp add: generateSecurePassword_def rand_Read_def encode_all_ones ReplaceAll_delete)

lemma lower_test_server: "ToLower ''test-server'' = ''test-server''"
  by (simp add: ToLower_def to_lower_char_def is_upper_def)

lemma sanitize_test_server: "sanitizeServerName ''test-server'' = ''test-server''"
  by (simp add: sanitizeServerName_def ReplaceAll_def lower_test_server is_lower_def is_digit_def)

text \<open>
  What holds of every password: it consists of letters and digits only, and it is at most
  as long as requested. The encoding uses the 64 characters of the URL-safe alphabet and
  the padding \<open>=\<close>; the three replacements delete the two symbols of the alphabet
  and the padding.
\<close>

lemma enc_in_alphabet: "enc v \<in> set encodeURL"
proof -
  have "v mod 64 < length encodeURL" by (simp add: encodeURL_def)
  then show ?thesis unfolding enc_def by (rule nth_mem)
qed

lemma EncodeToString_alphabet:
  "set (EncodeToString bs) \<subseteq> set encodeURL \<union> {CHR ''=''}"
  by (induction bs rule: EncodeToString.induct) (simp_all add: Let_def enc_in_alphabet)

lemma alphabet_alnum:
  "c \<in> set encodeURL \<Longrightarrow> c \<noteq> CHR ''-'' \<Longrightarrow> c \<noteq> CHR ''_'' \<Longrightarrow> is_alnum c"
  by (auto simp: encodeURL_def is_alnum_def is_lower_def is_upper_def is_digit_def)

lemma stripped_alnum:
  "list_all is_alnum
     (ReplaceAll (ReplaceAll (ReplaceAll (EncodeToString bs) (CHR ''-'') [])
        (CHR ''_'') []) (CHR ''='') [])"
  using EncodeToString_alphabet [of bs]
  by (auto simp: ReplaceAll_delete list_all_iff intro: alphabet_alnum)

lemma generateSecurePassword_alphanumeric:
  assumes "generateSecurePassword src len = Inr password"
  shows "list_all is_alnum password \<and> int (length password) \<le> len"
proof -
  from assms have len: "0 \<le> len"
    by (auto simp: generateSecurePassword_def split: if_splits)
  with assms obtain bytes where b: "rand_Read src (nat len) = Inr bytes"
    by (auto simp: generateSecurePassword_def split: sum.splits)
  define p where "p = ReplaceAll (ReplaceAll (ReplaceAll (EncodeToString bytes) (CHR ''-'') [])
                 (CHR ''_'') []) (CHR ''='') []"
  have pw: "password = (if int (length p) > len then take (nat len) p else p)"
    using assms len b
    by (auto simp: generateSecurePassword_def Let_def p_def split: if_splits)
  have "list_all is_alnum p" unfolding p_def by (rule stripped_alnum)
  then have "list_all is_alnum password"
    by (auto simp: pw list_all_iff dest: in_set_takeD)
  moreover have "int (length password) \<le> len"
    using len by (auto simp: pw)
  ultimately show ?thesis by simp
qed

text \<open>
  Claim C1 fails on the code. When the random source delivers sixteen bytes \<open>0xFF\<close>, the
  URL-safe encoding is twenty-one \<open>_\<close>, one \<open>w\<close> and two \<open>=\<close>; stripping the symbols
  leaves the one-character password \<open>w\<close>, and the final step only shortens a password
  that is too long. The password then has length 1, not \<open>PasswordLength = 16\<close>.
\<close>

theorem generateSecurePassword_short_password:
  "generateSecurePassword (RandStream (\<lambda>i. 255)) PasswordLength = Inr ''w''
   \<and> GenerateSFTPCredentials (RandStream (\<lambda>i. 255)) ''test-server''
       = Inr (''mc-test-server'', ''w'')"
  by (simp add: GenerateSFTPCredentials_def PasswordLength_def password_all_ones
      sanitize_test_server UsernamePrefix_def)

section \<open>Properties of the quantity codec\<close>

lemma is_digit_digit_char: "is_digit (digit_char d)"
proof -
  have "d mod 10 < length ''0123456789''" by simp
  then have "''0123456789'' ! (d mod 10) \<in> set ''0123456789''" by (rule nth_mem)
  then show ?thesis by (simp only: is_digit_def digit_char_def)
qed

lemma decimal_digits: "list_all is_digit (decimal n)"
proof (induction n rule: decimal.induct)
  case (1 n)
  show ?case
  proof (cases "n < 10")
    case True
    then show ?thesis by (simp add: decimal.simps [of n] is_digit_digit_char)
  next
    case False
    with 1 show ?thesis by (simp add: decimal.simps [of n] is_digit_digit_char)
  qed
qed

lemma decimal_nonempty: "decimal n \<noteq> []"
  by (simp add: decimal.simps [of n])

lemma is_digit_not_dot: "is_digit c \<Longrightarrow> c \<noteq> CHR ''.''"
  by (auto simp: is_digit_def)

lemma is_digit_not_space: "\<not> is_digit (CHR '' '')"
  by (simp add: is_digit_def)

lemma unit_loop_exp_bound:
  "0 \<le> n \<Longrightarrow> n < 1024 ^ Suc k \<Longrightarrow> snd (unit_loop n dv ex) \<le> ex + k"
proof (induction k arbitrary: n dv ex)
  case 0
  then show ?case by (simp add: unit_loop.simps [of n])
next
  case (Suc k)
  show ?case
  proof (cases "n \<ge> 1024")
    case False
    then show ?thesis by (simp add: unit_loop.simps [of n])
  next
    case True
    have "n div 1024 < 1024 ^ Suc k"
    proof -
      define m :: int where "m = 1024 ^ Suc k"
      have "n < 1024 * m" using Suc.prems by (simp add: m_def)
      then have "n div 1024 < m" by linarith
      then show ?thesis by (simp add: m_def)
    qed
    moreover have "0 \<le> n div 1024" using Suc.prems by simp
    ultimately have "snd (unit_loop (n div 1024) (dv * 1024) (ex + 1)) \<le> (ex + 1) + k"
      by (rule Suc.IH [rotated])
    with True show ?thesis by (simp add: unit_loop.simps [of n])
  qed
qed

text \<open>
  For an \<open>int64\<close> amount the loop stops after at most five rounds, so the index into
  \<open>KMGTPE\<close> is in range and the divisor is at most \<open>2 ^ 60\<close>: the product
  \<open>div *= unit\<close> never overflows, which is why the model multiplies without wrap-around.
\<close>

lemma unit_loop_div_bound:
  "0 \<le> n \<Longrightarrow> n < 1024 ^ Suc k \<Longrightarrow> 0 < dv \<Longrightarrow>
   fst (unit_loop n dv ex) \<le> dv * 1024 ^ k \<and> 0 < fst (unit_loop n dv ex)"
proof (induction k arbitrary: n dv ex)
  case 0
  then show ?case by (simp add: unit_loop.simps [of n])
next
  case (Suc k)
  show ?case
  proof (cases "n \<ge> 1024")
    case False
    then show ?thesis using Suc.prems by (simp add: unit_loop.simps [of n] mult_le_cancel_left1)
  next
    case True
    have "0 \<le> n div 1024" using Suc.prems by simp
    moreover have "n div 1024 < 1024 ^ Suc k"
    proof -
      define m :: int where "m = 1024 ^ Suc k"
      have "n < 1024 * m" using Suc.prems by (simp add: m_def)
      then have "n div 1024 < m" by linarith
      then show ?thesis by (simp add: m_def)
    qed
    moreover have "0 < dv * 1024" using Suc.prems by simp
    ultimately have "fst (unit_loop (n div 1024) (dv * 1024) (ex + 1)) \<le> dv * 1024 * 1024 ^ k
        \<and> 0 < fst (unit_loop (n div 1024) (dv * 1024) (ex + 1))"
      by (rule Suc.IH)
    with True show ?thesis by (simp add: unit_loop.simps [of n] mult.assoc)
  qed
qed

lemma unit_loop_no_overflow:
  assumes "int64 n" "\<not> n < 1024"
  shows "0 < fst (unit_loop (n div 1024) 1024 0)"
    and "fst (unit_loop (n div 1024) 1024 0) \<le> 2 ^ 60"
proof -
  have "n < 2 ^ 63" using assms by (simp add: int64_def)
  then have "n div 1024 < 1024 ^ Suc 5" by simp
  moreover have "0 \<le> n div 1024" using assms by simp
  ultimately have "fst (unit_loop (n div 1024) 1024 0) \<le> 1024 * 1024 ^ 5
      \<and> 0 < fst (unit_loop (n div 1024) 1024 0)"
    using unit_loop_div_bound [of "n div 1024" 5 1024 0] by simp
  then show "0 < fst (unit_loop (n div 1024) 1024 0)"
    and "fst (unit_loop (n div 1024) 1024 0) \<le> 2 ^ 60"
    by simp_all
qed

lemma fmt_small: "n < 1024 \<Longrightarrow> bytesToHumanReadable n = sprintf_d n @ '' B''"
  by (simp add: bytesToHumanReadable_def)

lemma fmt_large:
  "\<not> n < 1024 \<Longrightarrow>
   \<exists>k d. bytesToHumanReadable n =
     decimal k @ ''.'' @ [digit_char d] @ '' '' @
     [''KMGTPE'' ! snd (unit_loop (n div 1024) 1024 0)] @ ''iB''"
  by (auto simp: bytesToHumanReadable_def sprintf_1f_def Let_def split: prod.splits)

lemma not_valid_B: "\<not> isValidMemoryFormat (xs @ ''B'')"
  by (simp add: isValidMemoryFormat_def split: list.splits)

lemma fmt_ends_B: "\<exists>xs. bytesToHumanReadable n = xs @ ''B''"
proof (cases "n < 1024")
  case True
  then have "bytesToHumanReadable n = (sprintf_d n @ '' '') @ ''B''"
    by (simp add: fmt_small)
  then show ?thesis by blast
next
  case False
  from fmt_large [OF this] obtain k d where
    "bytesToHumanReadable n =
      (decimal k @ ''.'' @ [digit_char d] @ '' '' @
       [''KMGTPE'' ! snd (unit_loop (n div 1024) 1024 0)] @ ''i'') @ ''B''"
    by auto
  then show ?thesis by blast
qed

lemma fmt_not_valid: "\<not> isValidMemoryFormat (bytesToHumanReadable n)"
  using fmt_ends_B [of n] not_valid_B by auto

lemma sprintf_d_no_dot: "CHR ''.'' \<notin> set (sprintf_d n)"
proof -
  have "\<And>k. CHR ''.'' \<notin> set (decimal k)"
    using decimal_digits is_digit_not_dot by (auto simp: list_all_iff)
  then show ?thesis by (simp add: sprintf_d_def)
qed

lemma decimal_no_dot: "CHR ''.'' \<notin> set (decimal k)"
  using decimal_digits is_digit_not_dot by (auto simp: list_all_iff)

lemma dropWhile_until:
  "c \<notin> set xs \<Longrightarrow> dropWhile (\<lambda>x. x \<noteq> c) (xs @ c # rest) = c # rest"
  by (induction xs) auto

lemma dropWhile_decimal:
  "dropWhile (\<lambda>c. c \<noteq> CHR ''.'') (decimal k @ CHR ''.'' # rest) = CHR ''.'' # rest"
  using decimal_no_dot [of k] by (rule dropWhile_until)

lemma fraction_part_small: "n < 1024 \<Longrightarrow> fraction_part (bytesToHumanReadable n) = []"
proof -
  assume "n < 1024"
  then have "CHR ''.'' \<notin> set (bytesToHumanReadable n)"
    using sprintf_d_no_dot [of n] by (simp add: fmt_small)
  then have dw: "dropWhile (\<lambda>c. c \<noteq> CHR ''.'') (bytesToHumanReadable n) = []"
    by (auto simp: dropWhile_eq_Nil_conv)
  show ?thesis unfolding fraction_part_def dw by simp
qed

lemma fraction_part_large:
  "\<not> n < 1024 \<Longrightarrow> length (fraction_part (bytesToHumanReadable n)) = 1"
proof -
  assume "\<not> n < 1024"
  from fmt_large [OF this] obtain k d where
    "bytesToHumanReadable n =
      decimal k @ ''.'' @ [digit_char d] @ '' '' @
       [''KMGTPE'' ! snd (unit_loop (n div 1024) 1024 0)] @ ''iB''"
    by auto
  then show ?thesis
    by (simp add: fraction_part_def dropWhile_decimal is_digit_digit_char is_digit_not_space)
qed

lemma unit_char: "ex \<le> 5 \<Longrightarrow> ''KMGTPE'' ! ex \<in> set ''KMGTPE''"
  by (rule nth_mem) simp

lemma unit_of_int64:
  assumes "int64 n" "\<not> n < 1024"
  shows "snd (unit_loop (n div 1024) 1024 0) \<le> 5"
proof -
  have "n < 2 ^ 63" using assms by (simp add: int64_def)
  then have "n div 1024 < 1024 ^ Suc 5" by simp
  moreover have "0 \<le> n div 1024" using assms by simp
  ultimately show ?thesis using unit_loop_exp_bound [of "n div 1024" 5 1024 0] by simp
qed

lemma dots_small: "n < 1024 \<Longrightarrow> filter (\<lambda>c. c = CHR ''.'') (bytesToHumanReadable n) = []"
  using sprintf_d_no_dot [of n] by (auto simp: fmt_small filter_empty_conv)

lemma dots_large:
  assumes "int64 n" "\<not> n < 1024"
  shows "filter (\<lambda>c. c = CHR ''.'') (bytesToHumanReadable n) = ''.''"
proof -
  from fmt_large [OF assms(2)] obtain k d where eq:
    "bytesToHumanReadable n =
      decimal k @ ''.'' @ [digit_char d] @ '' '' @
       [''KMGTPE'' ! snd (unit_loop (n div 1024) 1024 0)] @ ''iB''"
    by auto
  have u: "''KMGTPE'' ! snd (unit_loop (n div 1024) 1024 0) \<noteq> CHR ''.''"
    using unit_char [OF unit_of_int64 [OF assms]] by auto
  have d: "digit_char d \<noteq> CHR ''.''"
    using is_digit_digit_char is_digit_not_dot by blast
  have k: "filter (\<lambda>c. c = CHR ''.'') (decimal k) = []"
    using decimal_no_dot [of k] by (auto simp: filter_empty_conv)
  show ?thesis by (simp add: eq u d k)
qed

text \<open>
  Claim C2, as amended. For every \<open>int64\<close> byte count \<open>n\<close> the text that
  \<open>bytesToHumanReadable\<close> produces is rejected by the quantity parser
  (\<open>isValidMemoryFormat\<close> followed by \<open>parseMemoryToBytes\<close>), whatever the quantity library
  does: the text ends in \<open>B\<close>, never in \<open>i\<close>. So parsing a formatted amount never
  recovers it. The formatted text has no decimal point and no fractional digit for the base
  unit (\<open>n < 1024\<close>), and exactly one decimal point followed by exactly one digit otherwise.
\<close>

theorem bytesToHumanReadable_not_parsed:
  assumes "int64 n"
  shows "parse_memory ParseQuantity Value (bytesToHumanReadable n) = Inl InvalidMemoryFormat
       \<and> length (fraction_part (bytesToHumanReadable n)) = (if n < 1024 then 0 else 1)
       \<and> length (filter (\<lambda>c. c = CHR ''.'') (bytesToHumanReadable n)) = (if n < 1024 then 0 else 1)"
  using assms
  by (simp add: parse_memory_def fmt_not_valid fraction_part_small fraction_part_large
      dots_small dots_large)

lemma fmt_4GiB: "bytesToHumanReadable 4294967296 = ''4.0 GiB''"
  by (simp add: bytesToHumanReadable_def unit_loop.simps float64_of_int_def sprintf_1f_def
      decimal.simps digit_char_def)

text \<open>
  Claim C2 as stated fails: \<open>4 * 1024 ^ 3\<close> bytes are formatted as \<open>4.0 GiB\<close>, and the
  parser does not give \<open>4 * 1024 ^ 3\<close> back for that text, even with a quantity library
  that would return exactly this amount.
\<close>

theorem parse_format_counterexample:
  "bytesToHumanReadable (4 * 1024 ^ 3) = ''4.0 GiB'' \<and>
   parse_memory (\<lambda>text. Some (4 * 1024 ^ 3)) (\<lambda>q. q) (bytesToHumanReadable (4 * 1024 ^ 3))
     \<noteq> Inr (4 * 1024 ^ 3)"
  by (simp add: fmt_4GiB parse_memory_def isValidMemoryFormat_def)

text \<open>The amended claim C2 at 4 GiB.\<close>

theorem bytesToHumanReadable_not_parsed_witness:
  "int64 4294967296 \<and>
   parse_memory (\<lambda>text. Some (4294967296::int)) (\<lambda>q. q) (bytesToHumanReadable 4294967296)
     = Inl InvalidMemoryFormat \<and>
   length (fraction_part (bytesToHumanReadable 4294967296)) = 1 \<and>
   length (filter (\<lambda>c. c = CHR ''.'') (bytesToHumanReadable 4294967296)) = 1"
  using bytesToHumanReadable_not_parsed [of 4294967296 "\<lambda>text. Some (4294967296::int)" "\<lambda>q. q"]
  by (simp add: int64_def)

section \<open>Properties of the capacity planner\<close>

lemma scenario_snapshot:
  "GetClusterMemoryResources scenario_cluster = Inr (17179869184, 4294967296, 12884901888)"
  by (simp add: GetClusterMemoryResources_def scenario_cluster_def add_node_def add_pod_def
      add_container_def wrap64_def)

lemma fmt_13GiB: "bytesToHumanReadable 13958643712 = ''13.0 GiB''"
  by (simp add: bytesToHumanReadable_def unit_loop.simps float64_of_int_def sprintf_1f_def
      decimal.simps digit_char_def)

lemma fmt_12GiB: "bytesToHumanReadable 12884901888 = ''12.0 GiB''"
  by (simp add: bytesToHumanReadable_def unit_loop.simps float64_of_int_def sprintf_1f_def
      decimal.simps digit_char_def)

lemma CheckMemoryAvailability_error:
  "GetClusterMemoryResources c = Inl err \<Longrightarrow> CheckMemoryAvailability c requested = Inl err"
  by (simp add: CheckMemoryAvailability_def)

text \<open>
  Claim C4. Whenever the snapshot of the cluster succeeds with \<open>available\<close> bytes,
  \<open>CheckMemoryAvailability\<close> answers ok exactly when the requested amount is at most
  \<open>available\<close>; a rejection carries the text
  \<open>insufficient memory: requested {format(requested)}, available {format(available)}\<close>,
  and an acceptance the empty text. At the boundary, requesting \<open>available\<close> is accepted and
  requesting \<open>available + 1\<close> is rejected.
\<close>

theorem CheckMemoryAvailability_exact_boundary:
  assumes "GetClusterMemoryResources c = Inr (totalMemory, allocated, available)"
  shows "CheckMemoryAvailability c requested =
           Inr (requested \<le> available,
                if requested \<le> available then ''''
                else ''insufficient memory: requested '' @ bytesToHumanReadable requested
                     @ '', available '' @ bytesToHumanReadable available)
       \<and> CheckMemoryAvailability c available = Inr (True, '''')
       \<and> CheckMemoryAvailability c (available + 1) =
           Inr (False, ''insufficient memory: requested '' @ bytesToHumanReadable (available + 1)
                     @ '', available '' @ bytesToHumanReadable available)"
  using assms by (simp add: CheckMemoryAvailability_def)

text \<open>
  Claim C4 on the cluster with 12 GiB available: 13 GiB are rejected with the expected text,
  12 GiB are accepted.
\<close>

theorem CheckMemoryAvailability_exact_boundary_witness:
  "GetClusterMemoryResources scenario_cluster = Inr (17179869184, 4294967296, 12884901888)
   \<and> CheckMemoryAvailability scenario_cluster 13958643712 =
        Inr (False, ''insufficient memory: requested 13.0 GiB, available 12.0 GiB'')
   \<and> CheckMemoryAvailability scenario_cluster 12884901888 = Inr (True, '''')"
  using CheckMemoryAvailability_exact_boundary [OF scenario_snapshot, of 13958643712]
  by (simp add: scenario_snapshot fmt_13GiB fmt_12GiB)

section \<open>Properties of resource synthesis\<close>

lemma valid_2Gi: "isValidMemoryFormat ''2Gi''" "isValidMemoryFormat ''5Gi''"
  "isValidMemoryFormat ''4Gi''" "isValidMemoryFormat ''10Gi''"
  "\<not> isValidMemoryFormat ''lots''" "\<not> isValidMemoryFormat ''5.5Gi''"
  by (simp_all add: isValidMemoryFormat_def is_digit_def)

lemma sts_cases:
  "statefulSetForMinecraftServer PQ m = Inl e \<longleftrightarrow>
     e = MustParsePanic \<and> PQ (Memory (Spec m)) = None"
  by (auto simp: statefulSetForMinecraftServer_def MustParse_def Let_def split: option.splits)

lemma pvc_cases:
  "pvcForMinecraftServer PQ m = Inl e \<longleftrightarrow>
     e = MustParsePanic \<and> PQ (StorageSize (Spec m)) = None"
  by (auto simp: pvcForMinecraftServer_def MustParse_def split: option.splits)

lemma workload_env_eq:
  "PQ (Memory (Spec m)) = Some q \<Longrightarrow>
   workload_env PQ m =
     Inr (minecraftEnv m (if Version (Spec m) = '''' then ''LATEST'' else Version (Spec m))
            (if ServerType (Spec m) = '''' then ''VANILLA'' else ServerType (Spec m)))"
  by (simp add: workload_env_def statefulSetForMinecraftServer_def MustParse_def Let_def
      ObjectMeta.extend_def StatefulSet.fields_def)

lemma env_lookup_minecraftEnv:
  "env_lookup (minecraftEnv m v t) ''EULA'' = Some (sprintf_t (EULA (Spec m)))"
  "env_lookup (minecraftEnv m v t) ''VERSION'' = Some v"
  "env_lookup (minecraftEnv m v t) ''TYPE'' = Some t"
  "env_lookup (minecraftEnv m v t) ''MEMORY'' = Some (Memory (Spec m))"
  "env_lookup (minecraftEnv m v t) ''MAX_PLAYERS'' =
     (if MaxPlayers (Spec m) > 0 then Some (sprintf_d (MaxPlayers (Spec m))) else None)"
  "env_lookup (minecraftEnv m v t) ''DIFFICULTY'' =
     (if Difficulty (Spec m) = '''' then None else Some (Difficulty (Spec m)))"
  "env_lookup (minecraftEnv m v t) ''MODE'' =
     (if Gamemode (Spec m) = '''' then None else Some (Gamemode (Spec m)))"
  by (simp_all add: env_lookup_def minecraftEnv_def)

text \<open>
  Claim C3, as amended. For every record whose memory parses, the environment of the
  synthesized workload has \<open>VERSION\<close> equal to the record's version, or \<open>LATEST\<close> when it
  is empty, and \<open>TYPE\<close> equal to the server type, or \<open>VANILLA\<close> when it is empty. No
  default is applied to the other three fields: \<open>MAX_PLAYERS\<close> is present exactly when
  \<open>maxPlayers\<close> is positive, \<open>DIFFICULTY\<close> and \<open>MODE\<close> exactly when the field is not empty,
  each with the record's own value.
\<close>

theorem synthesis_defaults:
  assumes "ParseQuantity (Memory (Spec m)) = Some q"
  shows "workload_env_value ParseQuantity m ''VERSION'' =
           Inr (Some (if Version (Spec m) = '''' then ''LATEST'' else Version (Spec m)))
       \<and> workload_env_value ParseQuantity m ''TYPE'' =
           Inr (Some (if ServerType (Spec m) = '''' then ''VANILLA'' else ServerType (Spec m)))
       \<and> workload_env_value ParseQuantity m ''MAX_PLAYERS'' =
           Inr (if MaxPlayers (Spec m) > 0 then Some (sprintf_d (MaxPlayers (Spec m))) else None)
       \<and> workload_env_value ParseQuantity m ''DIFFICULTY'' =
           Inr (if Difficulty (Spec m) = '''' then None else Some (Difficulty (Spec m)))
       \<and> workload_env_value ParseQuantity m ''MODE'' =
           Inr (if Gamemode (Spec m) = '''' then None else Some (Gamemode (Spec m)))"
  using assms
  by (simp add: workload_env_value_def workload_env_eq [of ParseQuantity m q]
      env_lookup_minecraftEnv)

lemma default_server_fields:
  "Name default_server = ''test-server''" "Namespace default_server = ''default''"
  "Memory (Spec default_server) = ''2Gi''" "StorageSize (Spec default_server) = ''5Gi''"
  "Version (Spec default_server) = ''''" "ServerType (Spec default_server) = ''''"
  "MaxPlayers (Spec default_server) = 0" "Difficulty (Spec default_server) = ''''"
  "Gamemode (Spec default_server) = ''''" "EULA (Spec default_server)"
  "Finalizers default_server = []" "DeletionTimestamp default_server = None"
  "SFTPUsername (Spec default_server) = ''test-user''"
  "SFTPPassword (Spec default_server) = ''test-pass''"
  "Status default_server = empty_status"
  by (simp_all add: default_server_def ObjectMeta.extend_def MinecraftServer.fields_def
      new_meta_def)

text \<open>
  Claim C3 as stated fails: for the record with \<open>maxPlayers = 0\<close> and empty difficulty and
  game mode, the environment of the synthesized workload has the four entries \<open>EULA\<close>,
  \<open>VERSION\<close>, \<open>TYPE\<close>, \<open>MEMORY\<close> only; it does not show 20 players, difficulty
  \<open>normal\<close> or mode \<open>survival\<close>.
\<close>

theorem synthesis_defaults_counterexample:
  "MaxPlayers (Spec default_server) = 0
   \<and> Difficulty (Spec default_server) = ''''
   \<and> Gamemode (Spec default_server) = ''''
   \<and> workload_env_value parse_text default_server ''MAX_PLAYERS'' \<noteq> Inr (Some ''20'')
   \<and> workload_env_value parse_text default_server ''DIFFICULTY'' \<noteq> Inr (Some ''normal'')
   \<and> workload_env_value parse_text default_server ''MODE'' \<noteq> Inr (Some ''survival'')
   \<and> workload_env parse_text default_server =
        Inr [\<lparr>env_Name = ''EULA'', env_Value = ''true''\<rparr>,
             \<lparr>env_Name = ''VERSION'', env_Value = ''LATEST''\<rparr>,
             \<lparr>env_Name = ''TYPE'', env_Value = ''VANILLA''\<rparr>,
             \<lparr>env_Name = ''MEMORY'', env_Value = ''2Gi''\<rparr>]"
proof -
  have p: "parse_text (Memory (Spec default_server)) = Some ''2Gi''"
    by (simp add: parse_text_def default_server_fields valid_2Gi)
  have e: "workload_env parse_text default_server =
        Inr (minecraftEnv default_server ''LATEST'' ''VANILLA'')"
    using p workload_env_eq [of parse_text default_server "''2Gi''"]
    by (simp add: default_server_fields)
  have v: "workload_env_value parse_text default_server ''MAX_PLAYERS'' = Inr None"
    "workload_env_value parse_text default_server ''DIFFICULTY'' = Inr None"
    "workload_env_value parse_text default_server ''MODE'' = Inr None"
    by (simp_all add: workload_env_value_def e env_lookup_minecraftEnv default_server_fields)
  show ?thesis
    by (simp add: v e default_server_fields minecraftEnv_def sprintf_t_def)
qed

text \<open>The amended claim C3 at the record with every optional field empty.\<close>

theorem synthesis_defaults_witness:
  "parse_text (Memory (Spec default_server)) = Some ''2Gi''
   \<and> workload_env_value parse_text default_server ''VERSION'' = Inr (Some ''LATEST'')
   \<and> workload_env_value parse_text default_server ''TYPE'' = Inr (Some ''VANILLA'')
   \<and> workload_env_value parse_text default_server ''MAX_PLAYERS'' = Inr None
   \<and> workload_env_value parse_text default_server ''DIFFICULTY'' = Inr None
   \<and> workload_env_value parse_text default_server ''MODE'' = Inr None"
proof -
  have p: "parse_text (Memory (Spec default_server)) = Some ''2Gi''"
    by (simp add: parse_text_def default_server_fields valid_2Gi)
  show ?thesis
    using synthesis_defaults [of parse_text default_server "''2Gi''"] p
    by (simp add: default_server_fields)
qed

lemma bad_server_fields:
  "Memory (Spec bad_server) = ''lots''" "StorageSize (Spec bad_server) = ''5.5Gi''"
  by (simp_all add: bad_server_def ObjectMeta.extend_def MinecraftServer.fields_def)

lemma custom_server_fields:
  "Name custom_server = ''custom-server''" "Namespace custom_server = ''default''"
  "Memory (Spec custom_server) = ''4Gi''" "StorageSize (Spec custom_server) = ''10Gi''"
  by (simp_all add: custom_server_def ObjectMeta.extend_def MinecraftServer.fields_def
      new_meta_def)

text \<open>
  Claim C9. The storage claim is synthesized exactly when the record's \<open>storageSize\<close>
  parses as a quantity and the workload exactly when its \<open>memory\<close> parses; when the
  text does not parse, the function does not return an error value, it panics in
  \<open>resource.MustParse\<close>. So under the precondition that both texts parse, no panic is
  reachable in synthesis (the other three constructors cannot fail).
\<close>

theorem synthesis_panics_unless_quantities_parse:
  "isl (pvcForMinecraftServer ParseQuantity m) = (ParseQuantity (StorageSize (Spec m)) = None)
   \<and> isl (statefulSetForMinecraftServer ParseQuantity m)
       = (ParseQuantity (Memory (Spec m)) = None)
   \<and> (ParseQuantity (StorageSize (Spec m)) = None
        \<longrightarrow> pvcForMinecraftServer ParseQuantity m = Inl MustParsePanic)
   \<and> (ParseQuantity (Memory (Spec m)) = None
        \<longrightarrow> statefulSetForMinecraftServer ParseQuantity m = Inl MustParsePanic)"
  by (simp add: isl_def sts_cases pvc_cases)

text \<open>
  Claim C9 at a record whose memory and storage size do not parse, and at one where both
  parse.
\<close>

theorem synthesis_panics_unless_quantities_parse_witness:
  "pvcForMinecraftServer parse_text bad_server = Inl MustParsePanic
   \<and> statefulSetForMinecraftServer parse_text bad_server = Inl MustParsePanic
   \<and> \<not> isl (pvcForMinecraftServer parse_text default_server)
   \<and> \<not> isl (statefulSetForMinecraftServer parse_text default_server)"
  using synthesis_panics_unless_quantities_parse [of parse_text bad_server]
    synthesis_panics_unless_quantities_parse [of parse_text default_server]
  by (simp add: parse_text_def bad_server_fields default_server_fields valid_2Gi)

lemma object_names:
  "Name (secretForMinecraftServer m) = Name m @ ''-sftp''"
  "Name (serviceForMinecraft m) = Name m @ ''-minecraft''"
  "Name (serviceForSFTP m) = Name m @ ''-sftp''"
  "Namespace (secretForMinecraftServer m) = Namespace m"
  "Namespace (serviceForMinecraft m) = Namespace m"
  "Namespace (serviceForSFTP m) = Namespace m"
  "OwnerReferences (secretForMinecraftServer m) = []"
  "OwnerReferences (serviceForMinecraft m) = []"
  "OwnerReferences (serviceForSFTP m) = []"
  by (simp_all add: secretForMinecraftServer_def serviceForMinecraft_def serviceForSFTP_def
      ObjectMeta.extend_def new_meta_def Let_def)

lemma pvc_name:
  "pvcForMinecraftServer PQ m = Inr pvc \<Longrightarrow>
   Name pvc = Name m @ ''-data'' \<and> Namespace pvc = Namespace m \<and> OwnerReferences pvc = []"
  by (auto simp: pvcForMinecraftServer_def MustParse_def ObjectMeta.extend_def new_meta_def
      split: option.splits)

lemma sts_name:
  "statefulSetForMinecraftServer PQ m = Inr sts \<Longrightarrow>
   Name sts = Name m \<and> Namespace sts = Namespace m \<and> OwnerReferences sts = []"
  by (auto simp: statefulSetForMinecraftServer_def MustParse_def ObjectMeta.extend_def
      new_meta_def Let_def split: option.splits)

lemma suffix_minecraft_sftp: "a @ ''-minecraft'' \<noteq> b @ ''-sftp''"
proof
  assume "a @ ''-minecraft'' = b @ ''-sftp''"
  then have "last (a @ ''-minecraft'') = last (b @ ''-sftp'')" by simp
  then show False by simp
qed

text \<open>
  Claim C8. The names of the owned objects are functions of the server name alone: the
  workload is named \<open>name\<close>, the storage claim \<open>name-data\<close>, the two services
  \<open>name-minecraft\<close> and \<open>name-sftp\<close>, the credential store \<open>name-sftp\<close>. For two servers
  with different names, no owned object of one has the name of an owned object of the same
  kind of the other.
\<close>

theorem owned_object_names_do_not_collide:
  assumes "Name m1 \<noteq> Name m2"
    and "pvcForMinecraftServer ParseQuantity m1 = Inr pvc1"
    and "pvcForMinecraftServer ParseQuantity m2 = Inr pvc2"
    and "statefulSetForMinecraftServer ParseQuantity m1 = Inr sts1"
    and "statefulSetForMinecraftServer ParseQuantity m2 = Inr sts2"
  shows "Name sts1 = Name m1 \<and> Name pvc1 = Name m1 @ ''-data''
       \<and> Name (serviceForMinecraft m1) = Name m1 @ ''-minecraft''
       \<and> Name (serviceForSFTP m1) = Name m1 @ ''-sftp''
       \<and> Name (secretForMinecraftServer m1) = Name m1 @ ''-sftp''
       \<and> Name sts1 \<noteq> Name sts2
       \<and> Name pvc1 \<noteq> Name pvc2
       \<and> Name (secretForMinecraftServer m1) \<noteq> Name (secretForMinecraftServer m2)
       \<and> {Name (serviceForMinecraft m1), Name (serviceForSFTP m1)}
           \<inter> {Name (serviceForMinecraft m2), Name (serviceForSFTP m2)} = {}"
  using assms suffix_minecraft_sftp [of "Name m1" "Name m2"]
    suffix_minecraft_sftp [of "Name m2" "Name m1"]
  by (auto simp: object_names dest!: pvc_name sts_name)


lemma parses_test_servers:
  "\<not> isl (pvcForMinecraftServer parse_text default_server)"
  "\<not> isl (statefulSetForMinecraftServer parse_text default_server)"
  "\<not> isl (pvcForMinecraftServer parse_text custom_server)"
  "\<not> isl (statefulSetForMinecraftServer parse_text custom_server)"
  by (simp_all add: isl_def sts_cases pvc_cases parse_text_def default_server_fields
      custom_server_fields valid_2Gi)

text \<open>Claim C8 at the two servers of the controller's tests.\<close>

theorem owned_object_names_do_not_collide_witness:
  "Name default_server \<noteq> Name custom_server
   \<and> Name (projr (statefulSetForMinecraftServer parse_text default_server)) = ''test-server''
   \<and> Name (projr (statefulSetForMinecraftServer parse_text custom_server)) = ''custom-server''
   \<and> Name (projr (pvcForMinecraftServer parse_text default_server)) = ''test-server-data''
   \<and> Name (projr (pvcForMinecraftServer parse_text custom_server)) = ''custom-server-data''
   \<and> {Name (serviceForMinecraft default_server), Name (serviceForSFTP default_server)}
       \<inter> {Name (serviceForMinecraft custom_server), Name (serviceForSFTP custom_server)} = {}"
proof -
  have n: "Name default_server \<noteq> Name custom_server"
    by (simp add: default_server_fields custom_server_fields)
  note t = owned_object_names_do_not_collide [OF n,
      of parse_text "projr (pvcForMinecraftServer parse_text default_server)"
         "projr (pvcForMinecraftServer parse_text custom_server)"
         "projr (statefulSetForMinecraftServer parse_text default_server)"
         "projr (statefulSetForMinecraftServer parse_text custom_server)"]
  have u: "Name (projr (statefulSetForMinecraftServer parse_text custom_server)) = Name custom_server
      \<and> Name (projr (pvcForMinecraftServer parse_text custom_server)) = Name custom_server @ ''-data''"
    using parses_test_servers sts_name [of parse_text custom_server]
      pvc_name [of parse_text custom_server]
    by simp
  show ?thesis using t parses_test_servers n u
    by (simp add: object_names default_server_fields custom_server_fields)
qed

section \<open>Lemmas about the status projection\<close>

lemma phase_cases:
  "fst (phase_message sts) = ''Running'' \<longleftrightarrow> ReadyReplicas (sts_Status sts) > 0"
  "fst (phase_message sts) = ''Starting'' \<longleftrightarrow>
     \<not> ReadyReplicas (sts_Status sts) > 0 \<and> Replicas (sts_Status sts) > 0"
  "fst (phase_message sts) = ''Pending'' \<longleftrightarrow>
     \<not> ReadyReplicas (sts_Status sts) > 0 \<and> \<not> Replicas (sts_Status sts) > 0"
  "fst (phase_message sts) \<noteq> ''Failed''"
  by (simp_all add: phase_message_def)

lemma message_of_phase:
  "snd (phase_message sts) =
     (if fst (phase_message sts) = ''Pending'' then ''Creating resources''
      else if fst (phase_message sts) = ''Starting'' then ''Server is starting''
      else ''Server is running'')"
  by (simp add: phase_message_def)

lemma endpoint_of_address:
  "Ports (svc_Spec svc) \<noteq> [] \<Longrightarrow>
   endpoint_of svc =
     (case external_address svc of
        None \<Rightarrow> ''''
      | Some address \<Rightarrow> address @ '':'' @ sprintf_d (Port (hd (Ports (svc_Spec svc)))))"
  by (simp add: endpoint_of_def external_address_def Let_def split: list.splits)

lemma projected_status_fields:
  "Phase (projected_status now m sts gsvc fsvc) = fst (phase_message sts)"
  "Message (projected_status now m sts gsvc fsvc) = snd (phase_message sts)"
  "Endpoint (projected_status now m sts gsvc fsvc) = endpoint_of gsvc"
  "SFTPEndpoint (projected_status now m sts gsvc fsvc) = endpoint_of fsvc"
  "Status_SFTPUsername (projected_status now m sts gsvc fsvc) = SFTPUsername (Spec m)"
  "Status_SFTPPassword (projected_status now m sts gsvc fsvc) = SFTPPassword (Spec m)"
  "AllocatedMemory (projected_status now m sts gsvc fsvc) = Memory (Spec m)"
  "LastUpdated (projected_status now m sts gsvc fsvc) = now"
  "Conditions (projected_status now m sts gsvc fsvc) = Conditions (Status m)"
  by (simp_all add: projected_status_def)

section \<open>Lemmas about the store client\<close>

lemma record_call_fields [simp]:
  "servers (record_call x c) = servers c"
  "secrets (record_call x c) = secrets c"
  "pvcs (record_call x c) = pvcs c"
  "statefulsets (record_call x c) = statefulsets c"
  "services (record_call x c) = services c"
  "failing (record_call x c) = failing c"
  "calls (record_call x c) = calls c @ [x]"
  by (simp_all add: record_call_def)

lemma andThenE:
  assumes "andThen r f = (Inr y, c')"
  obtains x c1 where "r = (Inr x, c1)" and "f x c1 = (Inr y, c')"
  using assms by (auto simp: andThen_def split: prod.splits sum.splits)

lemma andThen_Inr [simp]: "andThen (Inr x, c) f = f x c"
  by (simp add: andThen_def)

lemma andThen_Inl [simp]: "andThen (Inl e, c) f = (Inl e, c)"
  by (simp add: andThen_def)

lemma Get_typed_Inr:
  "Get_typed table knd k c = (Inr x, c') \<longleftrightarrow>
     \<not> failing c (GetObject knd k) \<and> table k = Some x \<and> c' = record_call (GetObject knd k) c"
  by (auto simp: Get_typed_def Let_def split: option.splits)

lemma Status_Update_Inr:
  "Status_Update m c = (Inr u, c') \<longleftrightarrow>
     \<not> failing c (UpdateServerStatus (Namespace m, Name m))
     \<and> (\<exists>stored. servers c (Namespace m, Name m) = Some stored
          \<and> c' = (record_call (UpdateServerStatus (Namespace m, Name m)) c)
                    \<lparr>servers := (servers c)((Namespace m, Name m) \<mapsto> stored\<lparr>Status := Status m\<rparr>)\<rparr>)"
  by (auto simp: Status_Update_def Let_def split: option.splits)

lemma updateStatus_Inr:
  assumes "updateStatus now m sts gsvc fsvc c = (Inr u, c')"
  obtains asts agsvc afsvc stored where
    "statefulsets c (Namespace sts, Name sts) = Some asts"
    "services c (Namespace gsvc, Name gsvc) = Some agsvc"
    "services c (Namespace fsvc, Name fsvc) = Some afsvc"
    "servers c (Namespace m, Name m) = Some stored"
    "\<not> failing c (GetObject StatefulSetKind (Namespace sts, Name sts))"
    "\<not> failing c (GetObject ServiceKind (Namespace gsvc, Name gsvc))"
    "\<not> failing c (GetObject ServiceKind (Namespace fsvc, Name fsvc))"
    "\<not> failing c (UpdateServerStatus (Namespace m, Name m))"
    "c' = c\<lparr>servers := (servers c)((Namespace m, Name m) \<mapsto>
                 stored\<lparr>Status := projected_status now m asts agsvc afsvc\<rparr>),
            calls := calls c @ [GetObject StatefulSetKind (Namespace sts, Name sts),
                                GetObject ServiceKind (Namespace gsvc, Name gsvc),
                                GetObject ServiceKind (Namespace fsvc, Name fsvc),
                                UpdateServerStatus (Namespace m, Name m)]\<rparr>"
proof -
  from assms obtain asts c1 where
    g1: "Get_typed (statefulsets c) StatefulSetKind (Namespace sts, Name sts) c = (Inr asts, c1)"
    and r1: "andThen (Get_typed (services c1) ServiceKind (Namespace gsvc, Name gsvc) c1)
       (\<lambda>actualMinecraftSvc c.
     andThen (Get_typed (services c) ServiceKind (Namespace fsvc, Name fsvc) c)
       (\<lambda>actualSftpSvc c.
     Status_Update
       (m\<lparr>Status := projected_status now m asts actualMinecraftSvc actualSftpSvc\<rparr>) c)) = (Inr u, c')"
    unfolding updateStatus_def by (erule andThenE)
  from r1 obtain agsvc c2 where
    g2: "Get_typed (services c1) ServiceKind (Namespace gsvc, Name gsvc) c1 = (Inr agsvc, c2)"
    and r2: "andThen (Get_typed (services c2) ServiceKind (Namespace fsvc, Name fsvc) c2)
       (\<lambda>actualSftpSvc c.
     Status_Update
       (m\<lparr>Status := projected_status now m asts agsvc actualSftpSvc\<rparr>) c) = (Inr u, c')"
    by (erule andThenE)
  from r2 obtain afsvc c3 where
    g3: "Get_typed (services c2) ServiceKind (Namespace fsvc, Name fsvc) c2 = (Inr afsvc, c3)"
    and r3: "Status_Update (m\<lparr>Status := projected_status now m asts agsvc afsvc\<rparr>) c3 = (Inr u, c')"
    by (erule andThenE)
  from g1 have c1: "c1 = record_call (GetObject StatefulSetKind (Namespace sts, Name sts)) c"
    and f1: "\<not> failing c (GetObject StatefulSetKind (Namespace sts, Name sts))"
    and s1: "statefulsets c (Namespace sts, Name sts) = Some asts"
    by (simp_all add: Get_typed_Inr)
  from g2 have c2: "c2 = record_call (GetObject ServiceKind (Namespace gsvc, Name gsvc)) c1"
    and f2: "\<not> failing c (GetObject ServiceKind (Namespace gsvc, Name gsvc))"
    and s2: "services c (Namespace gsvc, Name gsvc) = Some agsvc"
    by (simp_all add: Get_typed_Inr c1)
  from g3 have c3: "c3 = record_call (GetObject ServiceKind (Namespace fsvc, Name fsvc)) c2"
    and f3: "\<not> failing c (GetObject ServiceKind (Namespace fsvc, Name fsvc))"
    and s3: "services c (Namespace fsvc, Name fsvc) = Some afsvc"
    by (simp_all add: Get_typed_Inr c1 c2)
  from r3 obtain stored where
    f4: "\<not> failing c (UpdateServerStatus (Namespace m, Name m))"
    and s4: "servers c (Namespace m, Name m) = Some stored"
    and c': "c' = (record_call (UpdateServerStatus (Namespace m, Name m)) c3)
                    \<lparr>servers := (servers c3)((Namespace m, Name m) \<mapsto>
                        stored\<lparr>Status := projected_status now m asts agsvc afsvc\<rparr>)\<rparr>"
    by (auto simp: Status_Update_Inr c1 c2 c3)
  have "c' = c\<lparr>servers := (servers c)((Namespace m, Name m) \<mapsto>
                 stored\<lparr>Status := projected_status now m asts agsvc afsvc\<rparr>),
            calls := calls c @ [GetObject StatefulSetKind (Namespace sts, Name sts),
                                GetObject ServiceKind (Namespace gsvc, Name gsvc),
                                GetObject ServiceKind (Namespace fsvc, Name fsvc),
                                UpdateServerStatus (Namespace m, Name m)]\<rparr>"
    by (simp add: c' c3 c2 c1 record_call_def)
  with s1 s2 s3 s4 f1 f2 f3 f4 that show thesis by blast
qed

lemma updateStatus_settled:
  assumes "statefulsets c (Namespace sts, Name sts) = Some asts"
    "services c (Namespace gsvc, Name gsvc) = Some agsvc"
    "services c (Namespace fsvc, Name fsvc) = Some afsvc"
    "servers c (Namespace m, Name m) = Some stored"
    "\<not> failing c (GetObject StatefulSetKind (Namespace sts, Name sts))"
    "\<not> failing c (GetObject ServiceKind (Namespace gsvc, Name gsvc))"
    "\<not> failing c (GetObject ServiceKind (Namespace fsvc, Name fsvc))"
    "\<not> failing c (UpdateServerStatus (Namespace m, Name m))"
  shows "updateStatus now m sts gsvc fsvc c =
    (Inr (), c\<lparr>servers := (servers c)((Namespace m, Name m) \<mapsto>
                 stored\<lparr>Status := projected_status now m asts agsvc afsvc\<rparr>),
            calls := calls c @ [GetObject StatefulSetKind (Namespace sts, Name sts),
                                GetObject ServiceKind (Namespace gsvc, Name gsvc),
                                GetObject ServiceKind (Namespace fsvc, Name fsvc),
                                UpdateServerStatus (Namespace m, Name m)]\<rparr>)"
  using assms
  by (simp add: updateStatus_def Get_typed_def Status_Update_def Let_def record_call_def)


section \<open>Lemmas about create-if-absent\<close>

lemma SetOwnerReferences_fields [simp]:
  "GetKind (SetOwnerReferences refs obj) = GetKind obj"
  "GetName (SetOwnerReferences refs obj) = GetName obj"
  "GetNamespace (SetOwnerReferences refs obj) = GetNamespace obj"
  "GetOwnerReferences (SetOwnerReferences refs obj) = refs"
  by (cases obj; simp)+

lemma SetControllerReference_fresh:
  assumes "GetOwnerReferences obj = []" "GetNamespace obj = Namespace owner"
  shows "SetControllerReference sk owner obj =
           (if sk then Inr (SetOwnerReferences [owner_ref owner] obj)
            else Inl OwnerReferenceError)"
  using assms by (simp add: SetControllerReference_def)

lemma Get_object_failing:
  "failing c (GetObject (GetKind obj) k) \<Longrightarrow>
   Get_object obj k c = (Inl StoreError, record_call (GetObject (GetKind obj) k) c)"
  by (cases obj) (simp_all add: Get_typed_def map_result_def Let_def)

lemma Get_object_absent:
  "\<not> failing c (GetObject (GetKind obj) k) \<Longrightarrow> \<not> is_stored c (GetKind obj) k \<Longrightarrow>
   Get_object obj k c = (Inl NotFound, record_call (GetObject (GetKind obj) k) c)"
  by (cases obj) (simp_all add: Get_typed_def map_result_def Let_def)

lemma Get_object_present:
  "\<not> failing c (GetObject (GetKind obj) k) \<Longrightarrow> is_stored c (GetKind obj) k \<Longrightarrow>
   \<exists>existing. Get_object obj k c = (Inr existing, record_call (GetObject (GetKind obj) k) c)"
  by (cases obj) (auto simp: Get_typed_def map_result_def Let_def)

lemma createOrUpdateResource_fresh:
  assumes "GetOwnerReferences obj = []" "GetNamespace obj = Namespace owner"
  shows "createOrUpdateResource sk obj owner c =
     (let knd = GetKind obj; k = (GetNamespace obj, GetName obj)
      in if \<not> sk then (Inl OwnerReferenceError, c)
         else if failing c (GetObject knd k)
         then (Inl StoreError, record_call (GetObject knd k) c)
         else if is_stored c knd k then (Inr (), record_call (GetObject knd k) c)
         else if failing c (CreateObject knd k)
         then (Inl StoreError, record_call (CreateObject knd k) (record_call (GetObject knd k) c))
         else (Inr (), insert_object (SetOwnerReferences [owner_ref owner] obj)
                         (record_call (CreateObject knd k) (record_call (GetObject knd k) c))))"
proof (cases sk)
  case False
  then show ?thesis
    by (simp add: createOrUpdateResource_def SetControllerReference_fresh [OF assms] Let_def)
next
  case True
  let ?obj = "SetOwnerReferences [owner_ref owner] obj"
  let ?k = "(GetNamespace obj, GetName obj)"
  let ?g = "GetObject (GetKind obj) ?k"
  have s: "is_stored (record_call ?g c) (GetKind obj) ?k = is_stored c (GetKind obj) ?k"
    by (cases "GetKind obj") simp_all
  show ?thesis
  proof (cases "failing c ?g")
    case f: True
    then have "Get_object ?obj ?k c = (Inl StoreError, record_call ?g c)"
      using Get_object_failing [of c ?obj ?k] by simp
    with True f show ?thesis
      by (simp add: createOrUpdateResource_def SetControllerReference_fresh [OF assms] Let_def)
  next
    case nf: False
    show ?thesis
    proof (cases "is_stored c (GetKind obj) ?k")
      case st: True
      with nf obtain existing where "Get_object ?obj ?k c = (Inr existing, record_call ?g c)"
        using Get_object_present [of c ?obj ?k] by auto
      with True nf st show ?thesis
        by (simp add: createOrUpdateResource_def SetControllerReference_fresh [OF assms] Let_def)
    next
      case nst: False
      with nf have "Get_object ?obj ?k c = (Inl NotFound, record_call ?g c)"
        using Get_object_absent [of c ?obj ?k] by simp
      with True nf nst s show ?thesis
        by (simp add: createOrUpdateResource_def SetControllerReference_fresh [OF assms] Let_def
            Create_def)
    qed
  qed
qed


lemma extends_refl [simp]: "extends c c"
  by (simp add: extends_def)

lemma extends_trans: "extends a b \<Longrightarrow> extends b c \<Longrightarrow> extends a c"
  by (auto simp: extends_def intro: map_le_trans prefix_order.trans)

lemma extends_record_call [simp]: "extends c (record_call x c)"
  by (simp add: extends_def)

lemma map_le_Some: "m \<subseteq>\<^sub>m m' \<Longrightarrow> m k = Some y \<Longrightarrow> m' k = Some y"
  by (metis domI map_le_def)

lemma extends_is_stored: "extends c c' \<Longrightarrow> is_stored c knd k \<Longrightarrow> is_stored c' knd k"
  by (cases knd) (auto simp: extends_def dest: map_le_Some)

lemma extends_failing: "extends c c' \<Longrightarrow> failing c' = failing c"
  by (simp add: extends_def)

lemma extends_servers: "extends c c' \<Longrightarrow> servers c' = servers c"
  by (simp add: extends_def)

lemma extends_insert_object:
  "\<not> is_stored c (GetKind obj) (GetNamespace obj, GetName obj) \<Longrightarrow>
   extends c (insert_object obj c)"
  by (cases obj) (auto simp: extends_def map_le_def)

lemma is_stored_insert_object:
  "is_stored (insert_object obj c) (GetKind obj) (GetNamespace obj, GetName obj)"
  by (cases obj) simp_all

lemma is_stored_record_call [simp]:
  "is_stored (record_call x c) knd k = is_stored c knd k"
  by (cases knd) simp_all

lemma createOrUpdateResource_success:
  assumes fresh: "GetOwnerReferences obj = []" "GetNamespace obj = Namespace owner"
    and ok: "createOrUpdateResource sk obj owner c = (Inr u, c')"
  shows "sk \<and> \<not> failing c (GetObject (GetKind obj) (GetNamespace obj, GetName obj))
       \<and> is_stored c' (GetKind obj) (GetNamespace obj, GetName obj) \<and> extends c c'"
proof -
  let ?k = "(GetNamespace obj, GetName obj)"
  let ?g = "GetObject (GetKind obj) ?k"
  let ?cr = "CreateObject (GetKind obj) ?k"
  let ?obj = "SetOwnerReferences [owner_ref owner] obj"
  note eq = createOrUpdateResource_fresh [OF fresh, of sk c, unfolded Let_def]
  from ok eq have sk: sk by (auto split: if_splits)
  from ok eq have nf: "\<not> failing c ?g" by (auto split: if_splits)
  show ?thesis
  proof (cases "is_stored c (GetKind obj) ?k")
    case True
    with ok eq sk nf have "c' = record_call ?g c" by simp
    with True sk nf show ?thesis by simp
  next
    case False
    with ok eq sk nf have c': "c' = insert_object ?obj (record_call ?cr (record_call ?g c))"
      by (auto split: if_splits)
    have "\<not> is_stored (record_call ?cr (record_call ?g c)) (GetKind ?obj)
            (GetNamespace ?obj, GetName ?obj)"
      using False by simp
    then have "extends (record_call ?cr (record_call ?g c)) c'"
      unfolding c' by (rule extends_insert_object)
    then have e: "extends c c'"
      using extends_trans [OF extends_record_call extends_trans [OF extends_record_call]]
      by blast
    have "is_stored c' (GetKind ?obj) (GetNamespace ?obj, GetName ?obj)"
      unfolding c' by (rule is_stored_insert_object)
    with sk nf e show ?thesis by simp
  qed
qed

lemma createOrUpdateResource_settled:
  assumes "GetOwnerReferences obj = []" "GetNamespace obj = Namespace owner"
    and "\<not> failing c (GetObject (GetKind obj) (GetNamespace obj, GetName obj))"
    and "is_stored c (GetKind obj) (GetNamespace obj, GetName obj)"
  shows "createOrUpdateResource True obj owner c =
           (Inr (), record_call (GetObject (GetKind obj) (GetNamespace obj, GetName obj)) c)"
  using createOrUpdateResource_fresh [OF assms(1,2), of True c] assms(3,4)
  by (simp add: Let_def)

section \<open>Lemmas about the reconcile loop\<close>

lemma fresh_objects:
  "GetOwnerReferences (SecretObject (secretForMinecraftServer m)) = []"
  "GetNamespace (SecretObject (secretForMinecraftServer m)) = Namespace m"
  "GetName (SecretObject (secretForMinecraftServer m)) = Name m @ ''-sftp''"
  "GetOwnerReferences (ServiceObject (serviceForMinecraft m)) = []"
  "GetNamespace (ServiceObject (serviceForMinecraft m)) = Namespace m"
  "GetName (ServiceObject (serviceForMinecraft m)) = Name m @ ''-minecraft''"
  "GetOwnerReferences (ServiceObject (serviceForSFTP m)) = []"
  "GetNamespace (ServiceObject (serviceForSFTP m)) = Namespace m"
  "GetName (ServiceObject (serviceForSFTP m)) = Name m @ ''-sftp''"
  by (simp_all add: object_names)

lemma fresh_pvc:
  "pvcForMinecraftServer PQ m = Inr pvc \<Longrightarrow>
   GetOwnerReferences (PersistentVolumeClaimObject pvc) = []
   \<and> GetNamespace (PersistentVolumeClaimObject pvc) = Namespace m
   \<and> GetName (PersistentVolumeClaimObject pvc) = Name m @ ''-data''"
  using pvc_name [of PQ m pvc] by simp

lemma fresh_sts:
  "statefulSetForMinecraftServer PQ m = Inr sts \<Longrightarrow>
   GetOwnerReferences (StatefulSetObject sts) = []
   \<and> GetNamespace (StatefulSetObject sts) = Namespace m
   \<and> GetName (StatefulSetObject sts) = Name m"
  using sts_name [of PQ m sts] by simp

lemma reconcile_owned_success:
  assumes "reconcile_owned PQ sk now m c = (Inr res, c')"
  obtains pvc sts c7 where
    "pvcForMinecraftServer PQ m = Inr pvc"
    "statefulSetForMinecraftServer PQ m = Inr sts"
    "sk" "extends c c7"
    "is_stored c7 SecretKind (Namespace m, Name m @ ''-sftp'')"
    "is_stored c7 PersistentVolumeClaimKind (Namespace m, Name m @ ''-data'')"
    "is_stored c7 StatefulSetKind (Namespace m, Name m)"
    "is_stored c7 ServiceKind (Namespace m, Name m @ ''-minecraft'')"
    "is_stored c7 ServiceKind (Namespace m, Name m @ ''-sftp'')"
    "\<not> failing c (GetObject SecretKind (Namespace m, Name m @ ''-sftp''))"
    "\<not> failing c (GetObject PersistentVolumeClaimKind (Namespace m, Name m @ ''-data''))"
    "\<not> failing c (GetObject StatefulSetKind (Namespace m, Name m))"
    "\<not> failing c (GetObject ServiceKind (Namespace m, Name m @ ''-minecraft''))"
    "\<not> failing c (GetObject ServiceKind (Namespace m, Name m @ ''-sftp''))"
    "updateStatus now m sts (serviceForMinecraft m) (serviceForSFTP m) c7 = (Inr (), c')"
    "res = \<lparr>RequeueAfter = 30\<rparr>"
proof -
  note r = assms [unfolded reconcile_owned_def Let_def]
  from r obtain u1 c1 where
    s1: "createOrUpdateResource sk (SecretObject (secretForMinecraftServer m)) m c = (Inr u1, c1)"
    and r1: "andThen (pvcForMinecraftServer PQ m, c1) (\<lambda>pvc c.
      andThen (createOrUpdateResource sk (PersistentVolumeClaimObject pvc) m c) (\<lambda>u c.
      andThen (statefulSetForMinecraftServer PQ m, c) (\<lambda>statefulSet c.
      andThen (createOrUpdateResource sk (StatefulSetObject statefulSet) m c) (\<lambda>u c.
      andThen (createOrUpdateResource sk (ServiceObject (serviceForMinecraft m)) m c) (\<lambda>u c.
      andThen (createOrUpdateResource sk (ServiceObject (serviceForSFTP m)) m c) (\<lambda>u c.
      andThen (updateStatus now m statefulSet (serviceForMinecraft m) (serviceForSFTP m) c)
        (\<lambda>u c. (Inr \<lparr>RequeueAfter = 30\<rparr>, c)))))))) = (Inr res, c')"
    by (erule andThenE)
  from r1 obtain pvc c1' where
    p: "(pvcForMinecraftServer PQ m, c1) = (Inr pvc, c1')"
    and r2: "andThen (createOrUpdateResource sk (PersistentVolumeClaimObject pvc) m c1') (\<lambda>u c.
      andThen (statefulSetForMinecraftServer PQ m, c) (\<lambda>statefulSet c.
      andThen (createOrUpdateResource sk (StatefulSetObject statefulSet) m c) (\<lambda>u c.
      andThen (createOrUpdateResource sk (ServiceObject (serviceForMinecraft m)) m c) (\<lambda>u c.
      andThen (createOrUpdateResource sk (ServiceObject (serviceForSFTP m)) m c) (\<lambda>u c.
      andThen (updateStatus now m statefulSet (serviceForMinecraft m) (serviceForSFTP m) c)
        (\<lambda>u c. (Inr \<lparr>RequeueAfter = 30\<rparr>, c))))))) = (Inr res, c')"
    by (erule andThenE)
  from p have pvc: "pvcForMinecraftServer PQ m = Inr pvc" and c1': "c1' = c1" by simp_all
  from r2 obtain u2 c2 where
    s2: "createOrUpdateResource sk (PersistentVolumeClaimObject pvc) m c1 = (Inr u2, c2)"
    and r3: "andThen (statefulSetForMinecraftServer PQ m, c2) (\<lambda>statefulSet c.
      andThen (createOrUpdateResource sk (StatefulSetObject statefulSet) m c) (\<lambda>u c.
      andThen (createOrUpdateResource sk (ServiceObject (serviceForMinecraft m)) m c) (\<lambda>u c.
      andThen (createOrUpdateResource sk (ServiceObject (serviceForSFTP m)) m c) (\<lambda>u c.
      andThen (updateStatus now m statefulSet (serviceForMinecraft m) (serviceForSFTP m) c)
        (\<lambda>u c. (Inr \<lparr>RequeueAfter = 30\<rparr>, c)))))) = (Inr res, c')"
    unfolding c1' by (erule andThenE)
  from r3 obtain sts c2' where
    q: "(statefulSetForMinecraftServer PQ m, c2) = (Inr sts, c2')"
    and r4: "andThen (createOrUpdateResource sk (StatefulSetObject sts) m c2') (\<lambda>u c.
      andThen (createOrUpdateResource sk (ServiceObject (serviceForMinecraft m)) m c) (\<lambda>u c.
      andThen (createOrUpdateResource sk (ServiceObject (serviceForSFTP m)) m c) (\<lambda>u c.
      andThen (updateStatus now m sts (serviceForMinecraft m) (serviceForSFTP m) c)
        (\<lambda>u c. (Inr \<lparr>RequeueAfter = 30\<rparr>, c))))) = (Inr res, c')"
    by (erule andThenE)
  from q have sts: "statefulSetForMinecraftServer PQ m = Inr sts" and c2': "c2' = c2" by simp_all
  from r4 obtain u3 c3 where
    s3: "createOrUpdateResource sk (StatefulSetObject sts) m c2 = (Inr u3, c3)"
    and r5: "andThen (createOrUpdateResource sk (ServiceObject (serviceForMinecraft m)) m c3) (\<lambda>u c.
      andThen (createOrUpdateResource sk (ServiceObject (serviceForSFTP m)) m c) (\<lambda>u c.
      andThen (updateStatus now m sts (serviceForMinecraft m) (serviceForSFTP m) c)
        (\<lambda>u c. (Inr \<lparr>RequeueAfter = 30\<rparr>, c)))) = (Inr res, c')"
    unfolding c2' by (erule andThenE)
  from r5 obtain u4 c4 where
    s4: "createOrUpdateResource sk (ServiceObject (serviceForMinecraft m)) m c3 = (Inr u4, c4)"
    and r6: "andThen (createOrUpdateResource sk (ServiceObject (serviceForSFTP m)) m c4) (\<lambda>u c.
      andThen (updateStatus now m sts (serviceForMinecraft m) (serviceForSFTP m) c)
        (\<lambda>u c. (Inr \<lparr>RequeueAfter = 30\<rparr>, c))) = (Inr res, c')"
    by (erule andThenE)
  from r6 obtain u5 c5 where
    s5: "createOrUpdateResource sk (ServiceObject (serviceForSFTP m)) m c4 = (Inr u5, c5)"
    and r7: "andThen (updateStatus now m sts (serviceForMinecraft m) (serviceForSFTP m) c5)
        (\<lambda>u c. (Inr \<lparr>RequeueAfter = 30\<rparr>, c)) = (Inr res, c')"
    by (erule andThenE)
  from r7 obtain u6 c6 where
    s6: "updateStatus now m sts (serviceForMinecraft m) (serviceForSFTP m) c5 = (Inr u6, c6)"
    and r8: "(Inr \<lparr>RequeueAfter = 30\<rparr>, c6) = (Inr res, c')"
    by (auto simp: andThen_def split: prod.splits sum.splits)
  from r8 have res: "res = \<lparr>RequeueAfter = 30\<rparr>" and c6: "c6 = c'" by simp_all
  note f1 = createOrUpdateResource_success [OF fresh_objects(1,2) s1, unfolded fresh_objects]
  note fp = fresh_pvc [OF pvc]
  note f2 = createOrUpdateResource_success [OF fp [THEN conjunct1]
      fp [THEN conjunct2, THEN conjunct1] s2]
  note fs = fresh_sts [OF sts]
  note f3 = createOrUpdateResource_success [OF fs [THEN conjunct1]
      fs [THEN conjunct2, THEN conjunct1] s3]
  note f4 = createOrUpdateResource_success [OF fresh_objects(4,5) s4, unfolded fresh_objects]
  note f5 = createOrUpdateResource_success [OF fresh_objects(7,8) s5, unfolded fresh_objects]
  have e12: "extends c c2" using f1 f2 extends_trans by blast
  have e13: "extends c c3" using e12 f3 extends_trans by blast
  have e14: "extends c c4" using e13 f4 extends_trans by blast
  have e15: "extends c c5" using e14 f5 extends_trans by blast
  have e25: "extends c2 c5" using f3 f4 f5 extends_trans by blast
  have e35: "extends c3 c5" using f4 f5 extends_trans by blast
  have e1_5: "extends c1 c5" using f2 e25 extends_trans by blast
  have st1: "is_stored c5 SecretKind (Namespace m, Name m @ ''-sftp'')"
    using f1 extends_is_stored [OF e1_5, of SecretKind "(Namespace m, Name m @ ''-sftp'')"]
    by simp
  have st2: "is_stored c5 PersistentVolumeClaimKind (Namespace m, Name m @ ''-data'')"
    using f2 fp
      extends_is_stored [OF e25, of PersistentVolumeClaimKind "(Namespace m, Name m @ ''-data'')"]
    by simp
  have st3: "is_stored c5 StatefulSetKind (Namespace m, Name m)"
    using f3 fs extends_is_stored [OF e35, of StatefulSetKind "(Namespace m, Name m)"]
    by simp
  have st4: "is_stored c5 ServiceKind (Namespace m, Name m @ ''-minecraft'')"
    using f4 f5
      extends_is_stored [of c4 c5 ServiceKind "(Namespace m, Name m @ ''-minecraft'')"]
    by simp
  have st5: "is_stored c5 ServiceKind (Namespace m, Name m @ ''-sftp'')"
    using f5 by simp
  have nf1: "\<not> failing c (GetObject SecretKind (Namespace m, Name m @ ''-sftp''))"
    using f1 by simp
  have nf2: "\<not> failing c (GetObject PersistentVolumeClaimKind (Namespace m, Name m @ ''-data''))"
    using f2 fp extends_failing [of c c1] f1 by simp
  have nf3: "\<not> failing c (GetObject StatefulSetKind (Namespace m, Name m))"
    using f3 fs extends_failing [OF e12] by simp
  have nf4: "\<not> failing c (GetObject ServiceKind (Namespace m, Name m @ ''-minecraft''))"
    using f4 extends_failing [OF e13] by simp
  have nf5: "\<not> failing c (GetObject ServiceKind (Namespace m, Name m @ ''-sftp''))"
    using f5 extends_failing [OF e14] by simp
  have sk: sk using f1 by simp
  from s6 c6 have us: "updateStatus now m sts (serviceForMinecraft m) (serviceForSFTP m) c5
      = (Inr (), c')" by simp
  show thesis
    using that [OF pvc sts sk e15 st1 st2 st3 st4 st5 nf1 nf2 nf3 nf4 nf5 us res] .
qed


lemma reconcile_owned_settled:
  assumes pvc: "pvcForMinecraftServer PQ m = Inr pvc"
    and sts: "statefulSetForMinecraftServer PQ m = Inr sts"
    and st: "is_stored c SecretKind (Namespace m, Name m @ ''-sftp'')"
      "is_stored c PersistentVolumeClaimKind (Namespace m, Name m @ ''-data'')"
      "statefulsets c (Namespace m, Name m) = Some asts"
      "services c (Namespace m, Name m @ ''-minecraft'') = Some agsvc"
      "services c (Namespace m, Name m @ ''-sftp'') = Some afsvc"
      "servers c (Namespace m, Name m) = Some rec"
    and nf: "\<not> failing c (GetObject SecretKind (Namespace m, Name m @ ''-sftp''))"
      "\<not> failing c (GetObject PersistentVolumeClaimKind (Namespace m, Name m @ ''-data''))"
      "\<not> failing c (GetObject StatefulSetKind (Namespace m, Name m))"
      "\<not> failing c (GetObject ServiceKind (Namespace m, Name m @ ''-minecraft''))"
      "\<not> failing c (GetObject ServiceKind (Namespace m, Name m @ ''-sftp''))"
      "\<not> failing c (UpdateServerStatus (Namespace m, Name m))"
  shows "reconcile_owned PQ True now m c =
    (Inr \<lparr>RequeueAfter = 30\<rparr>,
     c\<lparr>servers := (servers c)((Namespace m, Name m) \<mapsto>
                 rec\<lparr>Status := projected_status now m asts agsvc afsvc\<rparr>),
       calls := calls c @
         [GetObject SecretKind (Namespace m, Name m @ ''-sftp''),
          GetObject PersistentVolumeClaimKind (Namespace m, Name m @ ''-data''),
          GetObject StatefulSetKind (Namespace m, Name m),
          GetObject ServiceKind (Namespace m, Name m @ ''-minecraft''),
          GetObject ServiceKind (Namespace m, Name m @ ''-sftp''),
          GetObject StatefulSetKind (Namespace m, Name m),
          GetObject ServiceKind (Namespace m, Name m @ ''-minecraft''),
          GetObject ServiceKind (Namespace m, Name m @ ''-sftp''),
          UpdateServerStatus (Namespace m, Name m)]\<rparr>)"
proof -
  let ?g1 = "GetObject SecretKind (Namespace m, Name m @ ''-sftp'')"
  let ?g2 = "GetObject PersistentVolumeClaimKind (Namespace m, Name m @ ''-data'')"
  let ?g3 = "GetObject StatefulSetKind (Namespace m, Name m)"
  let ?g4 = "GetObject ServiceKind (Namespace m, Name m @ ''-minecraft'')"
  let ?g5 = "GetObject ServiceKind (Namespace m, Name m @ ''-sftp'')"
  let ?c1 = "record_call ?g1 c"
  let ?c2 = "record_call ?g2 ?c1"
  let ?c3 = "record_call ?g3 ?c2"
  let ?c4 = "record_call ?g4 ?c3"
  let ?c5 = "record_call ?g5 ?c4"
  note fp = fresh_pvc [OF pvc]
  note fs = fresh_sts [OF sts]
  have s1: "createOrUpdateResource True (SecretObject (secretForMinecraftServer m)) m c
      = (Inr (), ?c1)"
    using createOrUpdateResource_settled [OF fresh_objects(1,2), of c m] st nf
    by (simp add: object_names)
  have s2: "createOrUpdateResource True (PersistentVolumeClaimObject pvc) m ?c1 = (Inr (), ?c2)"
    using createOrUpdateResource_settled [OF fp [THEN conjunct1]
        fp [THEN conjunct2, THEN conjunct1], of ?c1] st nf fp
    by simp
  have s3: "createOrUpdateResource True (StatefulSetObject sts) m ?c2 = (Inr (), ?c3)"
    using createOrUpdateResource_settled [OF fs [THEN conjunct1]
        fs [THEN conjunct2, THEN conjunct1], of ?c2] st nf fs
    by simp
  have s4: "createOrUpdateResource True (ServiceObject (serviceForMinecraft m)) m ?c3
      = (Inr (), ?c4)"
    using createOrUpdateResource_settled [OF fresh_objects(4,5), of ?c3 m] st nf
    by (simp add: object_names)
  have s5: "createOrUpdateResource True (ServiceObject (serviceForSFTP m)) m ?c4
      = (Inr (), ?c5)"
    using createOrUpdateResource_settled [OF fresh_objects(7,8), of ?c4 m] st nf
    by (simp add: object_names)
  have s6: "updateStatus now m sts (serviceForMinecraft m) (serviceForSFTP m) ?c5 =
    (Inr (), ?c5\<lparr>servers := (servers ?c5)((Namespace m, Name m) \<mapsto>
                 rec\<lparr>Status := projected_status now m asts agsvc afsvc\<rparr>),
            calls := calls ?c5 @ [?g3, ?g4, ?g5, UpdateServerStatus (Namespace m, Name m)]\<rparr>)"
    using updateStatus_settled [of ?c5 sts asts "serviceForMinecraft m" agsvc
        "serviceForSFTP m" afsvc m rec now] st nf sts_name [OF sts]
    by (simp add: object_names)
  have "reconcile_owned PQ True now m c =
    (Inr \<lparr>RequeueAfter = 30\<rparr>,
     ?c5\<lparr>servers := (servers ?c5)((Namespace m, Name m) \<mapsto>
                 rec\<lparr>Status := projected_status now m asts agsvc afsvc\<rparr>),
            calls := calls ?c5 @ [?g3, ?g4, ?g5, UpdateServerStatus (Namespace m, Name m)]\<rparr>)"
    unfolding reconcile_owned_def Let_def
    by (simp only: s1 andThen_Inr pvc s2 sts s3 s4 s5 s6)
  then show ?thesis by (simp add: record_call_def)
qed

lemma Reconcile_not_found:
  assumes "servers c req = None" "\<not> failing c (GetServer req)"
  shows "Reconcile PQ sk now req c = (Inr \<lparr>RequeueAfter = 0\<rparr>, record_call (GetServer req) c)"
  using assms by (simp add: Reconcile_def Get_server_def Let_def)

lemma Reconcile_deleting:
  assumes "servers c req = Some rec" "\<not> failing c (GetServer req)"
    "DeletionTimestamp rec \<noteq> None" "finalizerName \<in> set (Finalizers rec)"
  shows "Reconcile PQ sk now req c =
    (let finalizers = filter (\<lambda>f. f \<noteq> finalizerName) (Finalizers rec);
         c2 = record_call (UpdateServer req finalizers) (record_call (GetServer req) c)
     in if failing c (UpdateServer req finalizers) then (Inl StoreError, c2)
        else (Inr \<lparr>RequeueAfter = 0\<rparr>,
              c2\<lparr>servers := (servers c)(req \<mapsto>
                     rec\<lparr>Namespace := fst req, Name := snd req, Finalizers := finalizers\<rparr>)\<rparr>))"
  using assms
  by (simp add: Reconcile_def Get_server_def Let_def ContainsFinalizer_def RemoveFinalizer_def
      Update_server_def)

lemma Reconcile_deleted_no_finalizer:
  assumes "servers c req = Some rec" "\<not> failing c (GetServer req)"
    "DeletionTimestamp rec \<noteq> None" "finalizerName \<notin> set (Finalizers rec)"
  shows "Reconcile PQ sk now req c = (Inr \<lparr>RequeueAfter = 0\<rparr>, record_call (GetServer req) c)"
  using assms
  by (simp add: Reconcile_def Get_server_def Let_def ContainsFinalizer_def)

lemma Reconcile_attach:
  assumes "servers c req = Some rec" "\<not> failing c (GetServer req)"
    "DeletionTimestamp rec = None" "finalizerName \<notin> set (Finalizers rec)"
  shows "Reconcile PQ sk now req c =
    (let m = rec\<lparr>Namespace := fst req, Name := snd req,
                  Finalizers := Finalizers rec @ [finalizerName]\<rparr>;
         c2 = record_call (UpdateServer req (Finalizers rec @ [finalizerName]))
                (record_call (GetServer req) c)
     in if failing c (UpdateServer req (Finalizers rec @ [finalizerName]))
        then (Inl StoreError, c2)
        else reconcile_owned PQ sk now m (c2\<lparr>servers := (servers c)(req \<mapsto> m)\<rparr>))"
  using assms
  by (simp add: Reconcile_def Get_server_def Let_def ContainsFinalizer_def AddFinalizer_def
      Update_server_def)

lemma Reconcile_live:
  assumes "servers c req = Some rec" "\<not> failing c (GetServer req)"
    "DeletionTimestamp rec = None" "finalizerName \<in> set (Finalizers rec)"
  shows "Reconcile PQ sk now req c =
    reconcile_owned PQ sk now (rec\<lparr>Namespace := fst req, Name := snd req\<rparr>)
      (record_call (GetServer req) c)"
  using assms
  by (simp add: Reconcile_def Get_server_def Let_def ContainsFinalizer_def)

lemma Reconcile_get_fails:
  assumes "failing c (GetServer req)"
  shows "Reconcile PQ sk now req c = (Inl StoreError, record_call (GetServer req) c)"
  using assms by (simp add: Reconcile_def Get_server_def Let_def)


lemma reconcile_owned_result:
  assumes ok: "reconcile_owned PQ sk now m c = (Inr res, c')"
    and rec: "servers c (Namespace m, Name m) = Some r0"
  obtains pvc sts asts agsvc afsvc where
    "pvcForMinecraftServer PQ m = Inr pvc"
    "statefulSetForMinecraftServer PQ m = Inr sts"
    "sk" "res = \<lparr>RequeueAfter = 30\<rparr>"
    "is_stored c' SecretKind (Namespace m, Name m @ ''-sftp'')"
    "is_stored c' PersistentVolumeClaimKind (Namespace m, Name m @ ''-data'')"
    "statefulsets c' (Namespace m, Name m) = Some asts"
    "services c' (Namespace m, Name m @ ''-minecraft'') = Some agsvc"
    "services c' (Namespace m, Name m @ ''-sftp'') = Some afsvc"
    "servers c' = (servers c)((Namespace m, Name m) \<mapsto>
                     r0\<lparr>Status := projected_status now m asts agsvc afsvc\<rparr>)"
    "failing c' = failing c"
    "\<not> failing c (GetObject SecretKind (Namespace m, Name m @ ''-sftp''))"
    "\<not> failing c (GetObject PersistentVolumeClaimKind (Namespace m, Name m @ ''-data''))"
    "\<not> failing c (GetObject StatefulSetKind (Namespace m, Name m))"
    "\<not> failing c (GetObject ServiceKind (Namespace m, Name m @ ''-minecraft''))"
    "\<not> failing c (GetObject ServiceKind (Namespace m, Name m @ ''-sftp''))"
    "\<not> failing c (UpdateServerStatus (Namespace m, Name m))"
proof -
  from ok obtain pvc sts c7 where
    pvc: "pvcForMinecraftServer PQ m = Inr pvc"
    and sts: "statefulSetForMinecraftServer PQ m = Inr sts"
    and sk: "sk" and e: "extends c c7"
    and st: "is_stored c7 SecretKind (Namespace m, Name m @ ''-sftp'')"
      "is_stored c7 PersistentVolumeClaimKind (Namespace m, Name m @ ''-data'')"
    and nf: "\<not> failing c (GetObject SecretKind (Namespace m, Name m @ ''-sftp''))"
      "\<not> failing c (GetObject PersistentVolumeClaimKind (Namespace m, Name m @ ''-data''))"
      "\<not> failing c (GetObject StatefulSetKind (Namespace m, Name m))"
      "\<not> failing c (GetObject ServiceKind (Namespace m, Name m @ ''-minecraft''))"
      "\<not> failing c (GetObject ServiceKind (Namespace m, Name m @ ''-sftp''))"
    and us: "updateStatus now m sts (serviceForMinecraft m) (serviceForSFTP m) c7 = (Inr (), c')"
    and res: "res = \<lparr>RequeueAfter = 30\<rparr>"
    by (rule reconcile_owned_success)
  from us obtain asts agsvc afsvc stored where
    a: "statefulsets c7 (Namespace sts, Name sts) = Some asts"
      "services c7 (Namespace (serviceForMinecraft m), Name (serviceForMinecraft m)) = Some agsvc"
      "services c7 (Namespace (serviceForSFTP m), Name (serviceForSFTP m)) = Some afsvc"
    and b: "servers c7 (Namespace m, Name m) = Some stored"
    and f: "\<not> failing c7 (UpdateServerStatus (Namespace m, Name m))"
    and c': "c' = c7\<lparr>servers := (servers c7)((Namespace m, Name m) \<mapsto>
                 stored\<lparr>Status := projected_status now m asts agsvc afsvc\<rparr>),
            calls := calls c7 @
              [GetObject StatefulSetKind (Namespace sts, Name sts),
               GetObject ServiceKind
                 (Namespace (serviceForMinecraft m), Name (serviceForMinecraft m)),
               GetObject ServiceKind (Namespace (serviceForSFTP m), Name (serviceForSFTP m)),
               UpdateServerStatus (Namespace m, Name m)]\<rparr>"
    by (rule updateStatus_Inr)
  have sv: "servers c7 = servers c" and fl: "failing c7 = failing c"
    using e by (simp_all add: extends_def)
  from b rec sv have stored: "stored = r0" by simp
  note n = sts_name [OF sts]
  have 1: "is_stored c' SecretKind (Namespace m, Name m @ ''-sftp'')"
    "is_stored c' PersistentVolumeClaimKind (Namespace m, Name m @ ''-data'')"
    using st by (simp_all add: c')
  have 2: "statefulsets c' (Namespace m, Name m) = Some asts"
    "services c' (Namespace m, Name m @ ''-minecraft'') = Some agsvc"
    "services c' (Namespace m, Name m @ ''-sftp'') = Some afsvc"
    using a n by (simp_all add: c' object_names)
  have 3: "servers c' = (servers c)((Namespace m, Name m) \<mapsto>
                     r0\<lparr>Status := projected_status now m asts agsvc afsvc\<rparr>)"
    by (simp add: c' sv stored)
  have 4: "failing c' = failing c" by (simp add: c' fl)
  have 5: "\<not> failing c (UpdateServerStatus (Namespace m, Name m))"
    using f fl by simp
  show thesis using that [OF pvc sts sk res 1 2 3 4 nf 5] .
qed

lemma minecraftEnv_ignores_status:
  "minecraftEnv (m\<lparr>Status := s\<rparr>) v t = minecraftEnv m v t"
  by (simp add: minecraftEnv_def)

lemma constructors_ignore_status:
  "secretForMinecraftServer (m\<lparr>Status := s\<rparr>) = secretForMinecraftServer m"
  "pvcForMinecraftServer PQ (m\<lparr>Status := s\<rparr>) = pvcForMinecraftServer PQ m"
  "statefulSetForMinecraftServer PQ (m\<lparr>Status := s\<rparr>) = statefulSetForMinecraftServer PQ m"
  "serviceForMinecraft (m\<lparr>Status := s\<rparr>) = serviceForMinecraft m"
  "serviceForSFTP (m\<lparr>Status := s\<rparr>) = serviceForSFTP m"
  by (simp_all add: secretForMinecraftServer_def pvcForMinecraftServer_def
      statefulSetForMinecraftServer_def serviceForMinecraft_def serviceForSFTP_def
      minecraftEnv_ignores_status Let_def split: sum.splits)

lemma projected_status_again:
  "projected_status now2 (m\<lparr>Status := projected_status now1 m a b d\<rparr>) a b d
     = (projected_status now1 m a b d)\<lparr>LastUpdated := now2\<rparr>"
  by (simp add: projected_status_def)


lemma second_pass_live:
  assumes owned: "reconcile_owned PQ sk now1 m c2 = (Inr res, c1)"
    and r0: "servers c2 req = Some r0"
    and m: "m = r0\<lparr>Namespace := fst req, Name := snd req\<rparr>"
    and fin: "finalizerName \<in> set (Finalizers r0)"
    and live: "DeletionTimestamp r0 = None"
    and get: "\<not> failing c2 (GetServer req)"
  shows "\<exists>rec1. servers c1 req = Some rec1 \<and> Spec rec1 = Spec r0
      \<and> Status_SFTPUsername (Status rec1) = SFTPUsername (Spec r0)
      \<and> Status_SFTPPassword (Status rec1) = SFTPPassword (Spec r0)
      \<and> res = \<lparr>RequeueAfter = 30\<rparr>
      \<and> Reconcile PQ sk now2 req c1 =
        (Inr res,
         c1\<lparr>servers := (servers c1)(req \<mapsto>
                   rec1\<lparr>Status := (Status rec1)\<lparr>LastUpdated := now2\<rparr>\<rparr>),
            calls := calls c1 @
              [GetServer req,
               GetObject SecretKind (fst req, snd req @ ''-sftp''),
               GetObject PersistentVolumeClaimKind (fst req, snd req @ ''-data''),
               GetObject StatefulSetKind req,
               GetObject ServiceKind (fst req, snd req @ ''-minecraft''),
               GetObject ServiceKind (fst req, snd req @ ''-sftp''),
               GetObject StatefulSetKind req,
               GetObject ServiceKind (fst req, snd req @ ''-minecraft''),
               GetObject ServiceKind (fst req, snd req @ ''-sftp''),
               UpdateServerStatus req]\<rparr>)"
proof -
  have key: "Namespace m = fst req" "Name m = snd req" "(Namespace m, Name m) = req"
    by (simp_all add: m)
  have r0': "servers c2 (Namespace m, Name m) = Some r0" using r0 key by simp
  from reconcile_owned_result [OF owned r0'] obtain pvc sts asts agsvc afsvc where
    pvc: "pvcForMinecraftServer PQ m = Inr pvc"
    and sts: "statefulSetForMinecraftServer PQ m = Inr sts"
    and sk: "sk" and res: "res = \<lparr>RequeueAfter = 30\<rparr>"
    and st: "is_stored c1 SecretKind (Namespace m, Name m @ ''-sftp'')"
      "is_stored c1 PersistentVolumeClaimKind (Namespace m, Name m @ ''-data'')"
      "statefulsets c1 (Namespace m, Name m) = Some asts"
      "services c1 (Namespace m, Name m @ ''-minecraft'') = Some agsvc"
      "services c1 (Namespace m, Name m @ ''-sftp'') = Some afsvc"
    and sv: "servers c1 = (servers c2)((Namespace m, Name m) \<mapsto>
                     r0\<lparr>Status := projected_status now1 m asts agsvc afsvc\<rparr>)"
    and fl: "failing c1 = failing c2"
    and nf: "\<not> failing c2 (GetObject SecretKind (Namespace m, Name m @ ''-sftp''))"
      "\<not> failing c2 (GetObject PersistentVolumeClaimKind (Namespace m, Name m @ ''-data''))"
      "\<not> failing c2 (GetObject StatefulSetKind (Namespace m, Name m))"
      "\<not> failing c2 (GetObject ServiceKind (Namespace m, Name m @ ''-minecraft''))"
      "\<not> failing c2 (GetObject ServiceKind (Namespace m, Name m @ ''-sftp''))"
      "\<not> failing c2 (UpdateServerStatus (Namespace m, Name m))"
    by blast
  define proj1 where "proj1 = projected_status now1 m asts agsvc afsvc"
  define rec1 where "rec1 = r0\<lparr>Status := proj1\<rparr>"
  define m1 where "m1 = m\<lparr>Status := proj1\<rparr>"
  have rec1: "servers c1 req = Some rec1"
    by (simp add: sv key rec1_def proj1_def)
  have m1: "rec1\<lparr>Namespace := fst req, Name := snd req\<rparr> = m1"
    by (simp add: rec1_def m1_def m)
  have key1: "Namespace m1 = fst req" "Name m1 = snd req"
    by (simp_all add: m1_def key)
  have live1: "DeletionTimestamp rec1 = None" "finalizerName \<in> set (Finalizers rec1)"
    using live fin by (simp_all add: rec1_def)
  have get1: "\<not> failing c1 (GetServer req)" using get fl by simp
  let ?c = "record_call (GetServer req) c1"
  have pass: "Reconcile PQ sk now2 req c1 = reconcile_owned PQ True now2 m1 ?c"
    using Reconcile_live [OF rec1 get1 live1, of PQ sk now2] m1 sk by simp
  have pvc1: "pvcForMinecraftServer PQ m1 = Inr pvc"
    and sts1: "statefulSetForMinecraftServer PQ m1 = Inr sts"
    using pvc sts by (simp_all add: m1_def constructors_ignore_status)
  have settled: "reconcile_owned PQ True now2 m1 ?c =
    (Inr \<lparr>RequeueAfter = 30\<rparr>,
     ?c\<lparr>servers := (servers ?c)((Namespace m1, Name m1) \<mapsto>
                 rec1\<lparr>Status := projected_status now2 m1 asts agsvc afsvc\<rparr>),
       calls := calls ?c @
         [GetObject SecretKind (Namespace m1, Name m1 @ ''-sftp''),
          GetObject PersistentVolumeClaimKind (Namespace m1, Name m1 @ ''-data''),
          GetObject StatefulSetKind (Namespace m1, Name m1),
          GetObject ServiceKind (Namespace m1, Name m1 @ ''-minecraft''),
          GetObject ServiceKind (Namespace m1, Name m1 @ ''-sftp''),
          GetObject StatefulSetKind (Namespace m1, Name m1),
          GetObject ServiceKind (Namespace m1, Name m1 @ ''-minecraft''),
          GetObject ServiceKind (Namespace m1, Name m1 @ ''-sftp''),
          UpdateServerStatus (Namespace m1, Name m1)]\<rparr>)"
    using st nf fl rec1 key
    by (intro reconcile_owned_settled [OF pvc1 sts1]) (simp_all add: key1)
  have again: "projected_status now2 m1 asts agsvc afsvc = (Status rec1)\<lparr>LastUpdated := now2\<rparr>"
    by (simp add: m1_def proj1_def rec1_def projected_status_again)
  have final: "Reconcile PQ sk now2 req c1 =
        (Inr res,
         c1\<lparr>servers := (servers c1)(req \<mapsto>
                   rec1\<lparr>Status := (Status rec1)\<lparr>LastUpdated := now2\<rparr>\<rparr>),
            calls := calls c1 @
              [GetServer req,
               GetObject SecretKind (fst req, snd req @ ''-sftp''),
               GetObject PersistentVolumeClaimKind (fst req, snd req @ ''-data''),
               GetObject StatefulSetKind req,
               GetObject ServiceKind (fst req, snd req @ ''-minecraft''),
               GetObject ServiceKind (fst req, snd req @ ''-sftp''),
               GetObject StatefulSetKind req,
               GetObject ServiceKind (fst req, snd req @ ''-minecraft''),
               GetObject ServiceKind (fst req, snd req @ ''-sftp''),
               UpdateServerStatus req]\<rparr>)"
    unfolding pass settled by (simp add: again key1 res record_call_def)
  have spec: "Spec rec1 = Spec r0"
    "Status_SFTPUsername (Status rec1) = SFTPUsername (Spec r0)"
    "Status_SFTPPassword (Status rec1) = SFTPPassword (Spec r0)"
    by (simp_all add: rec1_def proj1_def projected_status_fields m)
  show ?thesis using rec1 spec res final by blast
qed

lemma Reconcile_again:
  assumes ok: "Reconcile PQ sk now1 req c = (Inr res, c1)"
  shows "(res = \<lparr>RequeueAfter = 0\<rparr> \<and> same_objects c c1
          \<and> filter is_create (calls c1) = filter is_create (calls c)
          \<and> Reconcile PQ sk now2 req c1 = (Inr res, record_call (GetServer req) c1))
       \<or> (res = \<lparr>RequeueAfter = 30\<rparr>
          \<and> (\<exists>rec rec1. servers c req = Some rec \<and> servers c1 req = Some rec1
                \<and> Spec rec1 = Spec rec
                \<and> Status_SFTPUsername (Status rec1) = SFTPUsername (Spec rec)
                \<and> Status_SFTPPassword (Status rec1) = SFTPPassword (Spec rec)
                \<and> Reconcile PQ sk now2 req c1 =
                    (Inr res,
                     c1\<lparr>servers := (servers c1)(req \<mapsto>
                           rec1\<lparr>Status := (Status rec1)\<lparr>LastUpdated := now2\<rparr>\<rparr>),
                        calls := calls c1 @
                          [GetServer req,
                           GetObject SecretKind (fst req, snd req @ ''-sftp''),
                           GetObject PersistentVolumeClaimKind (fst req, snd req @ ''-data''),
                           GetObject StatefulSetKind req,
                           GetObject ServiceKind (fst req, snd req @ ''-minecraft''),
                           GetObject ServiceKind (fst req, snd req @ ''-sftp''),
                           GetObject StatefulSetKind req,
                           GetObject ServiceKind (fst req, snd req @ ''-minecraft''),
                           GetObject ServiceKind (fst req, snd req @ ''-sftp''),
                           UpdateServerStatus req]\<rparr>)))"
proof -
  have get: "\<not> failing c (GetServer req)"
    using ok Reconcile_get_fails [of c req PQ sk now1] by auto
  show ?thesis
  proof (cases "servers c req")
    case None
    from ok Reconcile_not_found [OF None get, of PQ sk now1]
    have 1: "res = \<lparr>RequeueAfter = 0\<rparr>" "c1 = record_call (GetServer req) c" by simp_all
    have "Reconcile PQ sk now2 req c1 = (Inr res, record_call (GetServer req) c1)"
      using Reconcile_not_found [of c1 req PQ sk now2] None get 1 by simp
    then show ?thesis using 1 by (simp add: same_objects_def)
  next
    case (Some rec)
    show ?thesis
    proof (cases "DeletionTimestamp rec = None")
      case deleted: False
      show ?thesis
      proof (cases "finalizerName \<in> set (Finalizers rec)")
        case False
        from ok Reconcile_deleted_no_finalizer [OF Some get deleted False, of PQ sk now1]
        have 1: "res = \<lparr>RequeueAfter = 0\<rparr>" "c1 = record_call (GetServer req) c" by simp_all
        have "Reconcile PQ sk now2 req c1 = (Inr res, record_call (GetServer req) c1)"
          using Reconcile_deleted_no_finalizer [of c1 req rec PQ sk now2] Some get deleted False 1
          by simp
        then show ?thesis using 1 by (simp add: same_objects_def)
      next
        case True
        let ?fs = "filter (\<lambda>f. f \<noteq> finalizerName) (Finalizers rec)"
        let ?rec = "rec\<lparr>Namespace := fst req, Name := snd req, Finalizers := ?fs\<rparr>"
        note eq = Reconcile_deleting [OF Some get deleted True, of PQ sk now1, unfolded Let_def]
        from ok eq have nf: "\<not> failing c (UpdateServer req ?fs)" by (auto split: if_splits)
        from ok eq nf have 1: "res = \<lparr>RequeueAfter = 0\<rparr>"
          "c1 = (record_call (UpdateServer req ?fs) (record_call (GetServer req) c))
                  \<lparr>servers := (servers c)(req \<mapsto> ?rec)\<rparr>"
          by simp_all
        have s1: "servers c1 req = Some ?rec" and g1: "\<not> failing c1 (GetServer req)"
          using get by (simp_all add: 1)
        have "Reconcile PQ sk now2 req c1 = (Inr res, record_call (GetServer req) c1)"
          using Reconcile_deleted_no_finalizer [OF s1 g1, of PQ sk now2] deleted 1(1) by simp
        then show ?thesis using 1 by (simp add: same_objects_def)
      qed
    next
      case live: True
      show ?thesis
      proof (cases "finalizerName \<in> set (Finalizers rec)")
        case True
        let ?m = "rec\<lparr>Namespace := fst req, Name := snd req\<rparr>"
        let ?c2 = "record_call (GetServer req) c"
        from ok Reconcile_live [OF Some get live True, of PQ sk now1]
        have owned: "reconcile_owned PQ sk now1 ?m ?c2 = (Inr res, c1)" by simp
        have "servers ?c2 req = Some rec" "\<not> failing ?c2 (GetServer req)"
          using Some get by simp_all
        from second_pass_live [OF owned this(1) refl True live this(2), of now2]
        show ?thesis using Some by auto
      next
        case False
        let ?m = "rec\<lparr>Namespace := fst req, Name := snd req,
                      Finalizers := Finalizers rec @ [finalizerName]\<rparr>"
        let ?u = "UpdateServer req (Finalizers rec @ [finalizerName])"
        let ?c2 = "(record_call ?u (record_call (GetServer req) c))
                     \<lparr>servers := (servers c)(req \<mapsto> ?m)\<rparr>"
        note eq = Reconcile_attach [OF Some get live False, of PQ sk now1, unfolded Let_def]
        from ok eq have nf: "\<not> failing c ?u" by (auto split: if_splits)
        from ok eq nf have owned: "reconcile_owned PQ sk now1 ?m ?c2 = (Inr res, c1)" by simp
        have a: "servers ?c2 req = Some ?m" "\<not> failing ?c2 (GetServer req)"
          "?m = ?m\<lparr>Namespace := fst req, Name := snd req\<rparr>"
          "finalizerName \<in> set (Finalizers ?m)" "DeletionTimestamp ?m = None"
          using get live by simp_all
        from second_pass_live [OF owned a(1) a(3) a(4) a(5) a(2), of now2]
        show ?thesis using Some by auto
      qed
    qed
  qed
qed

lemma createOrUpdateResource_no_failure:
  assumes "GetOwnerReferences obj = []" "GetNamespace obj = Namespace owner"
    and "\<forall>x. \<not> failing c x"
  shows "\<exists>c'. createOrUpdateResource True obj owner c = (Inr (), c') \<and> extends c c'
          \<and> is_stored c' (GetKind obj) (GetNamespace obj, GetName obj)"
proof -
  let ?k = "(GetNamespace obj, GetName obj)"
  have "\<exists>c'. createOrUpdateResource True obj owner c = (Inr (), c')"
    using assms(3)
    by (simp add: createOrUpdateResource_fresh [OF assms(1,2), of True c] Let_def)
  then obtain c' where c': "createOrUpdateResource True obj owner c = (Inr (), c')"
    by blast
  from createOrUpdateResource_success [OF assms(1,2) c'] c' show ?thesis by blast
qed

lemma reconcile_owned_succeeds:
  assumes nofail: "\<forall>x. \<not> failing c x"
    and pvc: "pvcForMinecraftServer PQ m = Inr pvc"
    and sts: "statefulSetForMinecraftServer PQ m = Inr sts"
    and rec: "servers c (Namespace m, Name m) = Some r0"
  shows "\<exists>c'. reconcile_owned PQ True now m c = (Inr \<lparr>RequeueAfter = 30\<rparr>, c')"
proof -
  note fp = fresh_pvc [OF pvc]
  note fs = fresh_sts [OF sts]
  from createOrUpdateResource_no_failure [OF fresh_objects(1) [of m] fresh_objects(2) [of m] nofail]
  obtain c1 where s1: "createOrUpdateResource True (SecretObject (secretForMinecraftServer m)) m c
      = (Inr (), c1)" and e1: "extends c c1"
    by blast
  have n1: "\<forall>x. \<not> failing c1 x" using nofail extends_failing [OF e1] by simp
  from createOrUpdateResource_no_failure [OF fp [THEN conjunct1]
      fp [THEN conjunct2, THEN conjunct1] n1]
  obtain c2 where s2: "createOrUpdateResource True (PersistentVolumeClaimObject pvc) m c1
      = (Inr (), c2)" and e2: "extends c1 c2"
    by blast
  have n2: "\<forall>x. \<not> failing c2 x" using n1 extends_failing [OF e2] by simp
  from createOrUpdateResource_no_failure [OF fs [THEN conjunct1]
      fs [THEN conjunct2, THEN conjunct1] n2]
  obtain c3 where s3: "createOrUpdateResource True (StatefulSetObject sts) m c2 = (Inr (), c3)"
    and e3: "extends c2 c3"
    and i3: "is_stored c3 StatefulSetKind (Namespace m, Name m)"
    using fs by auto
  have n3: "\<forall>x. \<not> failing c3 x" using n2 extends_failing [OF e3] by simp
  from createOrUpdateResource_no_failure [OF fresh_objects(4) [of m] fresh_objects(5) [of m] n3]
  obtain c4 where s4: "createOrUpdateResource True (ServiceObject (serviceForMinecraft m)) m c3
      = (Inr (), c4)" and e4: "extends c3 c4"
    and i4: "is_stored c4 ServiceKind (Namespace m, Name m @ ''-minecraft'')"
    by (auto simp: object_names)
  have n4: "\<forall>x. \<not> failing c4 x" using n3 extends_failing [OF e4] by simp
  from createOrUpdateResource_no_failure [OF fresh_objects(7) [of m] fresh_objects(8) [of m] n4]
  obtain c5 where s5: "createOrUpdateResource True (ServiceObject (serviceForSFTP m)) m c4
      = (Inr (), c5)" and e5: "extends c4 c5"
    and i5: "is_stored c5 ServiceKind (Namespace m, Name m @ ''-sftp'')"
    by (auto simp: object_names)
  have n5: "\<forall>x. \<not> failing c5 x" using n4 extends_failing [OF e5] by simp
  have j3: "is_stored c5 StatefulSetKind (Namespace m, Name m)"
    using i3 extends_is_stored [OF extends_trans [OF e4 e5]] by blast
  have j4: "is_stored c5 ServiceKind (Namespace m, Name m @ ''-minecraft'')"
    using i4 extends_is_stored [OF e5] by blast
  from j3 j4 i5 obtain asts agsvc afsvc where
    a: "statefulsets c5 (Namespace m, Name m) = Some asts"
       "services c5 (Namespace m, Name m @ ''-minecraft'') = Some agsvc"
       "services c5 (Namespace m, Name m @ ''-sftp'') = Some afsvc"
    by auto
  have sv: "servers c5 (Namespace m, Name m) = Some r0"
    using rec extends_servers [OF e1] extends_servers [OF e2] extends_servers [OF e3]
      extends_servers [OF e4] extends_servers [OF e5]
    by simp
  have s6: "\<exists>c'. updateStatus now m sts (serviceForMinecraft m) (serviceForSFTP m) c5
              = (Inr (), c')"
    using updateStatus_settled [of c5 sts asts "serviceForMinecraft m" agsvc
        "serviceForSFTP m" afsvc m r0 now] a sv n5 sts_name [OF sts]
    by (simp add: object_names)
  then obtain c' where s6': "updateStatus now m sts (serviceForMinecraft m) (serviceForSFTP m) c5
              = (Inr (), c')" by blast
  have "reconcile_owned PQ True now m c = (Inr \<lparr>RequeueAfter = 30\<rparr>, c')"
    unfolding reconcile_owned_def Let_def
    by (simp only: s1 andThen_Inr pvc s2 sts s3 s4 s5 s6')
  then show ?thesis by blast
qed

section \<open>Properties of the reconcile loop and the status projection\<close>

text \<open>
  Claim C10. A reconcile pass that succeeds, that is, runs to its end and asks to be
  invoked again after 30 seconds, leaves a record in the store whose status carries the
  SFTP user name and the SFTP password of the record's spec, copied as they are
  (\<open>status.SFTPUsername\<close> and \<open>status.SFTPPassword\<close>, two fields of the status type
  besides phase, endpoint, sftpEndpoint, allocatedMemory, message and lastUpdated).
\<close>

theorem Reconcile_writes_credentials_to_status:
  assumes "Reconcile ParseQuantity scheme_knows_owner now req c = (Inr \<lparr>RequeueAfter = 30\<rparr>, c')"
  shows "\<exists>rec rec'. servers c req = Some rec \<and> servers c' req = Some rec'
           \<and> Spec rec' = Spec rec
           \<and> Status_SFTPUsername (Status rec') = SFTPUsername (Spec rec)
           \<and> Status_SFTPPassword (Status rec') = SFTPPassword (Spec rec)"
  using Reconcile_again [OF assms, of 0] by auto

text \<open>
  Claim C7. Let the fetch itself not fail. If the store has no record under the key, the
  pass returns success with no requeue and the store is unchanged but for the record of
  the one \<open>Get\<close> call. If the record is marked for deletion and carries the finalizer, the
  pass makes exactly one more call, the update that writes the record without the
  finalizer, and stops: it returns success when the update succeeds and the store error
  otherwise, and no owned object is synthesized or created. If the record is live and
  lacks the finalizer, the first call after the fetch is the update that stores the record
  with the finalizer attached; only from the store that holds it does the pass go on to
  create owned objects (\<open>reconcile_owned\<close>), and when that update fails the pass stops
  with the error.
\<close>

theorem Reconcile_fetch_and_finalizer_gate:
  assumes "\<not> failing c (GetServer req)"
  shows
    "(servers c req = None \<longrightarrow>
        Reconcile ParseQuantity scheme_knows_owner now req c =
          (Inr \<lparr>RequeueAfter = 0\<rparr>, c\<lparr>calls := calls c @ [GetServer req]\<rparr>))
   \<and> (\<forall>rec. servers c req = Some rec \<and> DeletionTimestamp rec \<noteq> None
          \<and> finalizerName \<in> set (Finalizers rec) \<longrightarrow>
        (let finalizers = filter (\<lambda>f. f \<noteq> finalizerName) (Finalizers rec);
             c2 = c\<lparr>calls := calls c @ [GetServer req, UpdateServer req finalizers]\<rparr>
         in finalizerName \<notin> set finalizers
            \<and> Reconcile ParseQuantity scheme_knows_owner now req c =
                (if failing c (UpdateServer req finalizers) then (Inl StoreError, c2)
                 else (Inr \<lparr>RequeueAfter = 0\<rparr>,
                       c2\<lparr>servers := (servers c)(req \<mapsto>
                              rec\<lparr>Namespace := fst req, Name := snd req,
                                  Finalizers := finalizers\<rparr>)\<rparr>))))
   \<and> (\<forall>rec. servers c req = Some rec \<and> DeletionTimestamp rec = None
          \<and> finalizerName \<notin> set (Finalizers rec) \<longrightarrow>
        (let m = rec\<lparr>Namespace := fst req, Name := snd req,
                      Finalizers := Finalizers rec @ [finalizerName]\<rparr>;
             c2 = c\<lparr>calls := calls c @ [GetServer req, UpdateServer req (Finalizers m)]\<rparr>
         in Reconcile ParseQuantity scheme_knows_owner now req c =
              (if failing c (UpdateServer req (Finalizers m)) then (Inl StoreError, c2)
               else reconcile_owned ParseQuantity scheme_knows_owner now m
                      (c2\<lparr>servers := (servers c)(req \<mapsto> m)\<rparr>))))"
proof (intro conjI allI impI)
  assume "servers c req = None"
  from Reconcile_not_found [OF this assms]
  show "Reconcile ParseQuantity scheme_knows_owner now req c =
          (Inr \<lparr>RequeueAfter = 0\<rparr>, c\<lparr>calls := calls c @ [GetServer req]\<rparr>)"
    by (simp add: record_call_def)
next
  fix rec
  assume a: "servers c req = Some rec \<and> DeletionTimestamp rec \<noteq> None
          \<and> finalizerName \<in> set (Finalizers rec)"
  then have 1: "servers c req = Some rec" "DeletionTimestamp rec \<noteq> None"
    "finalizerName \<in> set (Finalizers rec)" by simp_all
  from Reconcile_deleting [OF 1(1) assms 1(2) 1(3), of ParseQuantity scheme_knows_owner now]
  show "let finalizers = filter (\<lambda>f. f \<noteq> finalizerName) (Finalizers rec);
             c2 = c\<lparr>calls := calls c @ [GetServer req, UpdateServer req finalizers]\<rparr>
         in finalizerName \<notin> set finalizers
            \<and> Reconcile ParseQuantity scheme_knows_owner now req c =
                (if failing c (UpdateServer req finalizers) then (Inl StoreError, c2)
                 else (Inr \<lparr>RequeueAfter = 0\<rparr>,
                       c2\<lparr>servers := (servers c)(req \<mapsto>
                              rec\<lparr>Namespace := fst req, Name := snd req,
                                  Finalizers := finalizers\<rparr>)\<rparr>))"
    by (simp add: Let_def record_call_def)
next
  fix rec
  assume a: "servers c req = Some rec \<and> DeletionTimestamp rec = None
          \<and> finalizerName \<notin> set (Finalizers rec)"
  then have 1: "servers c req = Some rec" "DeletionTimestamp rec = None"
    "finalizerName \<notin> set (Finalizers rec)" by simp_all
  from Reconcile_attach [OF 1(1) assms 1(2) 1(3), of ParseQuantity scheme_knows_owner now]
  show "let m = rec\<lparr>Namespace := fst req, Name := snd req,
                      Finalizers := Finalizers rec @ [finalizerName]\<rparr>;
             c2 = c\<lparr>calls := calls c @ [GetServer req, UpdateServer req (Finalizers m)]\<rparr>
         in Reconcile ParseQuantity scheme_knows_owner now req c =
              (if failing c (UpdateServer req (Finalizers m)) then (Inl StoreError, c2)
               else reconcile_owned ParseQuantity scheme_knows_owner now m
                      (c2\<lparr>servers := (servers c)(req \<mapsto> m)\<rparr>))"
    by (simp add: Let_def record_call_def)
qed


text \<open>
  Claim C5. Let the live workload and the two live services be in the store, no call
  fail, the replica counts be counts (\<open>0 \<le> readyReplicas \<le> totalReplicas\<close>) and each
  service declare a port. Then \<open>updateStatus\<close> stores a status whose phase is \<open>Pending\<close>
  exactly when \<open>totalReplicas = 0\<close>, \<open>Starting\<close> exactly when \<open>totalReplicas > 0\<close> and
  \<open>readyReplicas = 0\<close>, \<open>Running\<close> exactly when \<open>readyReplicas > 0\<close>, with the fixed
  message of the phase; the phase is never \<open>Failed\<close>; and each endpoint is
  \<open>address:port\<close> when the service has an externally assigned address and empty
  otherwise.
\<close>

theorem updateStatus_projection:
  assumes live: "statefulsets c (Namespace sts, Name sts) = Some actualSts"
      "services c (Namespace minecraftSvc, Name minecraftSvc) = Some actualMinecraftSvc"
      "services c (Namespace sftpSvc, Name sftpSvc) = Some actualSftpSvc"
      "servers c (Namespace m, Name m) = Some rec"
    and nofail: "\<forall>x. \<not> failing c x"
    and counts: "0 \<le> ReadyReplicas (sts_Status actualSts)"
      "ReadyReplicas (sts_Status actualSts) \<le> Replicas (sts_Status actualSts)"
    and ports: "Ports (svc_Spec actualMinecraftSvc) \<noteq> []"
      "Ports (svc_Spec actualSftpSvc) \<noteq> []"
  shows "\<exists>c' st. updateStatus now m sts minecraftSvc sftpSvc c = (Inr (), c')
      \<and> servers c' (Namespace m, Name m) = Some (rec\<lparr>Status := st\<rparr>)
      \<and> (Phase st = ''Pending'' \<longleftrightarrow> Replicas (sts_Status actualSts) = 0)
      \<and> (Phase st = ''Starting'' \<longleftrightarrow>
            Replicas (sts_Status actualSts) > 0 \<and> ReadyReplicas (sts_Status actualSts) = 0)
      \<and> (Phase st = ''Running'' \<longleftrightarrow> ReadyReplicas (sts_Status actualSts) > 0)
      \<and> Phase st \<in> {''Pending'', ''Starting'', ''Running''}
      \<and> Phase st \<noteq> ''Failed''
      \<and> Message st =
            (if Phase st = ''Pending'' then ''Creating resources''
             else if Phase st = ''Starting'' then ''Server is starting''
             else ''Server is running'')
      \<and> Endpoint st =
            (case external_address actualMinecraftSvc of
               None \<Rightarrow> ''''
             | Some address \<Rightarrow>
                 address @ '':'' @ sprintf_d (Port (hd (Ports (svc_Spec actualMinecraftSvc)))))
      \<and> SFTPEndpoint st =
            (case external_address actualSftpSvc of
               None \<Rightarrow> ''''
             | Some address \<Rightarrow>
                 address @ '':'' @ sprintf_d (Port (hd (Ports (svc_Spec actualSftpSvc)))))"
proof -
  let ?st = "projected_status now m actualSts actualMinecraftSvc actualSftpSvc"
  let ?c' = "c\<lparr>servers := (servers c)((Namespace m, Name m) \<mapsto> rec\<lparr>Status := ?st\<rparr>),
            calls := calls c @ [GetObject StatefulSetKind (Namespace sts, Name sts),
                                GetObject ServiceKind (Namespace minecraftSvc, Name minecraftSvc),
                                GetObject ServiceKind (Namespace sftpSvc, Name sftpSvc),
                                UpdateServerStatus (Namespace m, Name m)]\<rparr>"
  have u: "updateStatus now m sts minecraftSvc sftpSvc c = (Inr (), ?c')"
    using updateStatus_settled [OF live] nofail by simp
  have s: "servers ?c' (Namespace m, Name m) = Some (rec\<lparr>Status := ?st\<rparr>)" by simp
  have p: "(Phase ?st = ''Pending'' \<longleftrightarrow> Replicas (sts_Status actualSts) = 0)"
    "(Phase ?st = ''Starting'' \<longleftrightarrow>
        Replicas (sts_Status actualSts) > 0 \<and> ReadyReplicas (sts_Status actualSts) = 0)"
    "(Phase ?st = ''Running'' \<longleftrightarrow> ReadyReplicas (sts_Status actualSts) > 0)"
    "Phase ?st \<in> {''Pending'', ''Starting'', ''Running''}"
    "Phase ?st \<noteq> ''Failed''"
    using counts by (auto simp: projected_status_fields phase_message_def)
  have msg: "Message ?st =
            (if Phase ?st = ''Pending'' then ''Creating resources''
             else if Phase ?st = ''Starting'' then ''Server is starting''
             else ''Server is running'')"
    by (simp add: projected_status_fields phase_message_def)
  have e: "Endpoint ?st =
            (case external_address actualMinecraftSvc of
               None \<Rightarrow> ''''
             | Some address \<Rightarrow>
                 address @ '':'' @ sprintf_d (Port (hd (Ports (svc_Spec actualMinecraftSvc)))))"
    "SFTPEndpoint ?st =
            (case external_address actualSftpSvc of
               None \<Rightarrow> ''''
             | Some address \<Rightarrow>
                 address @ '':'' @ sprintf_d (Port (hd (Ports (svc_Spec actualSftpSvc)))))"
    using ports by (simp_all add: projected_status_fields endpoint_of_address)
  show ?thesis using u s p msg e by blast
qed

section \<open>The properties on the controller's test server\<close>

lemma store_with_fields:
  "servers (store_with m) = [(Namespace m, Name m) \<mapsto> m]"
  "secrets (store_with m) = Map.empty" "pvcs (store_with m) = Map.empty"
  "statefulsets (store_with m) = Map.empty" "services (store_with m) = Map.empty"
  "failing (store_with m) = (\<lambda>x. False)" "calls (store_with m) = []"
  "servers empty_store = Map.empty" "failing empty_store = (\<lambda>x. False)"
  "calls empty_store = []"
  by (simp_all add: store_with_def empty_store_def)

lemma deleting_server_fields:
  "Name deleting_server = ''test-server''" "Namespace deleting_server = ''default''"
  "DeletionTimestamp deleting_server = Some 7" "Finalizers deleting_server = [finalizerName]"
  by (simp_all add: deleting_server_def default_server_fields)

lemma test_server_parses:
  "\<exists>pvc. pvcForMinecraftServer parse_text (default_server\<lparr>Finalizers := fs\<rparr>) = Inr pvc"
  "\<exists>sts. statefulSetForMinecraftServer parse_text (default_server\<lparr>Finalizers := fs\<rparr>) = Inr sts"
  by (simp_all add: pvcForMinecraftServer_def statefulSetForMinecraftServer_def MustParse_def
      parse_text_def default_server_fields valid_2Gi Let_def)

lemma first_pass:
  "Reconcile parse_text True now test_key (store_with default_server) =
     reconcile_owned parse_text True now (default_server\<lparr>Finalizers := [finalizerName]\<rparr>)
       ((store_with default_server)
          \<lparr>calls := [GetServer test_key, UpdateServer test_key [finalizerName]],
           servers := [test_key \<mapsto> default_server\<lparr>Finalizers := [finalizerName]\<rparr>]\<rparr>)"
proof -
  have 1: "servers (store_with default_server) test_key = Some default_server"
    "\<not> failing (store_with default_server) (GetServer test_key)"
    "DeletionTimestamp default_server = None"
    "finalizerName \<notin> set (Finalizers default_server)"
    by (simp_all add: store_with_fields test_key_def default_server_fields)
  have 2: "default_server\<lparr>Namespace := ''default'', Name := ''test-server'',
                  Finalizers := [finalizerName]\<rparr>
      = default_server\<lparr>Finalizers := [finalizerName]\<rparr>"
    by (simp add: default_server_def ObjectMeta.extend_def
        MinecraftServer.fields_def new_meta_def)
  show ?thesis
    using Reconcile_attach [OF 1, of parse_text True now]
    by (simp add: Let_def test_key_def 2 store_with_fields record_call_def
        default_server_fields)
qed

lemma first_pass_succeeds:
  "fst (Reconcile parse_text True now test_key (store_with default_server))
     = Inr \<lparr>RequeueAfter = 30\<rparr>"
proof -
  let ?m = "default_server\<lparr>Finalizers := [finalizerName]\<rparr>"
  let ?c = "(store_with default_server)
          \<lparr>calls := [GetServer test_key, UpdateServer test_key [finalizerName]],
           servers := [test_key \<mapsto> ?m]\<rparr>"
  obtain pvc sts where p: "pvcForMinecraftServer parse_text ?m = Inr pvc"
    "statefulSetForMinecraftServer parse_text ?m = Inr sts"
    using test_server_parses by blast
  have n: "\<forall>x. \<not> failing ?c x" by (simp add: store_with_fields)
  have r: "servers ?c (Namespace ?m, Name ?m) = Some ?m"
    by (simp add: default_server_fields test_key_def)
  from reconcile_owned_succeeds [OF n p r, of now]
  show ?thesis by (auto simp: first_pass)
qed

text \<open>
  Claim C10 on the test server: the first pass succeeds and the stored status shows the
  user name and the password of the spec.
\<close>

theorem Reconcile_writes_credentials_to_status_witness:
  "fst (Reconcile parse_text True 1 test_key (store_with default_server))
     = Inr \<lparr>RequeueAfter = 30\<rparr>
   \<and> map_option (\<lambda>rec. (Status_SFTPUsername (Status rec), Status_SFTPPassword (Status rec)))
        (servers (snd (Reconcile parse_text True 1 test_key (store_with default_server)))
           test_key)
     = Some (''test-user'', ''test-pass'')"
proof -
  let ?r = "Reconcile parse_text True 1 test_key (store_with default_server)"
  have h: "?r = (Inr \<lparr>RequeueAfter = 30\<rparr>, snd ?r)"
    using first_pass_succeeds [of 1] by (simp add: prod_eq_iff)
  have s: "servers (store_with default_server) test_key = Some default_server"
    by (simp add: store_with_fields test_key_def default_server_fields)
  show ?thesis
    using Reconcile_writes_credentials_to_status [OF h] s first_pass_succeeds [of 1]
    by (auto simp: default_server_fields)
qed



text \<open>
  Claim C7 on an empty store, on a store whose server is being deleted, and on a store
  whose server is live without the finalizer.
\<close>

theorem Reconcile_fetch_and_finalizer_gate_witness:
  "Reconcile parse_text True 1 test_key empty_store =
     (Inr \<lparr>RequeueAfter = 0\<rparr>, empty_store\<lparr>calls := [GetServer test_key]\<rparr>)
   \<and> Reconcile parse_text True 1 test_key (store_with deleting_server) =
     (Inr \<lparr>RequeueAfter = 0\<rparr>,
      (store_with deleting_server)
        \<lparr>calls := [GetServer test_key, UpdateServer test_key []],
         servers := [test_key \<mapsto> deleting_server\<lparr>Finalizers := []\<rparr>]\<rparr>)
   \<and> Reconcile parse_text True 1 test_key (store_with default_server) =
     reconcile_owned parse_text True 1 (default_server\<lparr>Finalizers := [finalizerName]\<rparr>)
       ((store_with default_server)
          \<lparr>calls := [GetServer test_key, UpdateServer test_key [finalizerName]],
           servers := [test_key \<mapsto> default_server\<lparr>Finalizers := [finalizerName]\<rparr>]\<rparr>)"
proof -
  have d: "deleting_server\<lparr>Namespace := ''default'', Name := ''test-server'', Finalizers := []\<rparr>
      = deleting_server\<lparr>Finalizers := []\<rparr>"
    by (simp add: deleting_server_def default_server_def ObjectMeta.extend_def
        MinecraftServer.fields_def new_meta_def)
  have m: "default_server\<lparr>Namespace := ''default'', Name := ''test-server'',
                  Finalizers := [finalizerName]\<rparr>
      = default_server\<lparr>Finalizers := [finalizerName]\<rparr>"
    by (simp add: default_server_def ObjectMeta.extend_def
        MinecraftServer.fields_def new_meta_def)
  have 1: "\<not> failing empty_store (GetServer test_key)"
    and 2: "\<not> failing (store_with deleting_server) (GetServer test_key)"
    and 3: "\<not> failing (store_with default_server) (GetServer test_key)"
    by (simp_all add: store_with_fields)
  show ?thesis
    using Reconcile_fetch_and_finalizer_gate [OF 1, of parse_text True 1]
      Reconcile_fetch_and_finalizer_gate [OF 2, of parse_text True 1]
      Reconcile_fetch_and_finalizer_gate [OF 3, of parse_text True 1]
    by (simp add: Let_def test_key_def store_with_fields deleting_server_fields
        default_server_fields d m)
qed

lemma live_objects:
  "Name live_sts = ''test-server''" "Namespace live_sts = ''default''"
  "sts_Status live_sts = \<lparr>Replicas = 1, ReadyReplicas = 0\<rparr>"
  "Name live_game_svc = ''test-server-minecraft''" "Namespace live_game_svc = ''default''"
  "Name live_sftp_svc = ''test-server-sftp''" "Namespace live_sftp_svc = ''default''"
  "Ingress (svc_Status live_game_svc) = [\<lparr>IP = ''203.0.113.7'', Hostname = ''''\<rparr>]"
  "Ingress (svc_Status live_sftp_svc) = []"
  "map Port (Ports (svc_Spec live_game_svc)) = [25565]"
  "map Port (Ports (svc_Spec live_sftp_svc)) = [22]"
proof -
  obtain sts where s: "statefulSetForMinecraftServer parse_text default_server = Inr sts"
    using parses_test_servers(2) by (cases "statefulSetForMinecraftServer parse_text default_server") auto
  show "Name live_sts = ''test-server''" "Namespace live_sts = ''default''"
    "sts_Status live_sts = \<lparr>Replicas = 1, ReadyReplicas = 0\<rparr>"
    using sts_name [OF s] by (simp_all add: live_sts_def s default_server_fields)
  show "Name live_game_svc = ''test-server-minecraft''" "Namespace live_game_svc = ''default''"
    "Name live_sftp_svc = ''test-server-sftp''" "Namespace live_sftp_svc = ''default''"
    by (simp_all add: live_game_svc_def live_sftp_svc_def object_names default_server_fields)
  show "Ingress (svc_Status live_game_svc) = [\<lparr>IP = ''203.0.113.7'', Hostname = ''''\<rparr>]"
    "Ingress (svc_Status live_sftp_svc) = []"
    "map Port (Ports (svc_Spec live_game_svc)) = [25565]"
    "map Port (Ports (svc_Spec live_sftp_svc)) = [22]"
    by (simp_all add: live_game_svc_def live_sftp_svc_def serviceForMinecraft_def
        serviceForSFTP_def ObjectMeta.extend_def Service.fields_def Let_def)
qed

lemma sprintf_d_25565: "sprintf_d 25565 = ''25565''"
  by (simp add: sprintf_d_def decimal.simps digit_char_def)

text \<open>
  Claim C5 on a workload with one replica, none ready, whose game service has the address
  203.0.113.7 and whose file service has none: phase \<open>Starting\<close>, game endpoint
  \<open>203.0.113.7:25565\<close>, file endpoint empty.
\<close>

theorem updateStatus_projection_witness:
  "\<exists>c' st. updateStatus 5 default_server live_sts live_game_svc live_sftp_svc starting_store
              = (Inr (), c')
      \<and> servers c' test_key = Some (default_server\<lparr>Status := st\<rparr>)
      \<and> Phase st = ''Starting'' \<and> Message st = ''Server is starting''
      \<and> Endpoint st = ''203.0.113.7:25565'' \<and> SFTPEndpoint st = ''''"
proof -
  have live: "statefulsets starting_store (Namespace live_sts, Name live_sts) = Some live_sts"
    "services starting_store (Namespace live_game_svc, Name live_game_svc) = Some live_game_svc"
    "services starting_store (Namespace live_sftp_svc, Name live_sftp_svc) = Some live_sftp_svc"
    "servers starting_store (Namespace default_server, Name default_server) = Some default_server"
    by (simp_all add: starting_store_def live_objects store_with_fields default_server_fields)
  have nofail: "\<forall>x. \<not> failing starting_store x"
    by (simp add: starting_store_def store_with_fields)
  have counts: "0 \<le> ReadyReplicas (sts_Status live_sts)"
    "ReadyReplicas (sts_Status live_sts) \<le> Replicas (sts_Status live_sts)"
    by (simp_all add: live_objects)
  have ports: "Ports (svc_Spec live_game_svc) \<noteq> []" "Ports (svc_Spec live_sftp_svc) \<noteq> []"
    using live_objects(10,11) by auto
  have hd: "Port (hd (Ports (svc_Spec live_game_svc))) = 25565"
    using live_objects(10) by (cases "Ports (svc_Spec live_game_svc)") auto
  have ext: "external_address live_game_svc = Some ''203.0.113.7''"
    "external_address live_sftp_svc = None"
    by (simp_all add: external_address_def live_objects)
  from updateStatus_projection [OF live nofail counts ports, where now = 5]
  obtain c' st where
    "updateStatus 5 default_server live_sts live_game_svc live_sftp_svc starting_store
       = (Inr (), c')"
    "servers c' (Namespace default_server, Name default_server)
       = Some (default_server\<lparr>Status := st\<rparr>)"
    "Phase st = ''Starting''" "Message st = ''Server is starting''"
    "Endpoint st = ''203.0.113.7:25565''" "SFTPEndpoint st = ''''"
    by (auto simp: live_objects ext hd sprintf_d_25565)
  then show ?thesis by (auto simp: default_server_fields test_key_def)
qed

end
